theory Spec2Isabelle
  imports Main
begin

section \<open>Python values and exceptions\<close>

text \<open>
  The Playbook class of \<^verbatim>\<open>tcex/playbook/playbook.py\<close> works on dynamically typed
  values. Only the distinctions the code itself makes are kept: \<^verbatim>\<open>None\<close>, strings
  (\<^verbatim>\<open>isinstance(key, str)\<close>), lists (\<^verbatim>\<open>isinstance(value, list)\<close>) and two other
  shapes (integers, dictionaries) standing for "neither a string nor a list".
  Strings are lists of 8-bit characters.

  A Python list is an object that \<^verbatim>\<open>extend\<close> and \<^verbatim>\<open>append\<close> change in place, for
  everyone who holds it. \<open>PRef a\<close> is the list object at address \<open>a\<close> of the state's
  \<open>list_objects\<close>: the caller and any number of buffered records may hold it.
  \<open>PList xs\<close> is a list object that nothing else holds (a list written in place as an
  argument, a list a read returns or one the Playbook makes itself), given by its
  elements.
\<close>

datatype pyval =
    PNone
  | PInt int
  | PStr string
  | PList "pyval list"
  | PDict "(string \<times> pyval) list"
  | PRef nat

text \<open>
  Exceptions are values. \<open>AttributeError\<close> is what \<^verbatim>\<open>x.strip()\<close>, \<^verbatim>\<open>x.append(v)\<close> or
  \<^verbatim>\<open>x.group(4)\<close> raise on an object without that attribute, \<open>TypeError\<close> what
  \<^verbatim>\<open>None['type']\<close> raises, \<open>KeyError\<close> what \<^verbatim>\<open>d[k]\<close> raises on a missing key,
  \<open>RuntimeError\<close> carries the message of the strict creators,
  and \<open>StoreError\<close> is any exception of the key value store.
\<close>

datatype error =
    AttributeError
  | TypeError
  | KeyError
  | RuntimeError string
  | StoreError string

definition is_list :: "pyval \<Rightarrow> bool" where
  "is_list v = (case v of PList _ \<Rightarrow> True | PRef _ \<Rightarrow> True | _ \<Rightarrow> False)"

text \<open>
  The list objects, by address. An address beyond the end names no object: it reads as
  the empty list and cannot be written.
\<close>

definition object_at :: "pyval list list \<Rightarrow> nat \<Rightarrow> pyval list" where
  "object_at h a = (if a < length h then h ! a else [])"

definition set_object :: "pyval list list \<Rightarrow> nat \<Rightarrow> pyval list \<Rightarrow> pyval list list" where
  "set_object h a xs = (if a < length h then h[a := xs] else h)"

text \<open>A value as it reads at this moment: a list object by its elements.\<close>

definition snapshot :: "pyval list list \<Rightarrow> pyval \<Rightarrow> pyval" where
  "snapshot h v = (case v of PRef a \<Rightarrow> PList (object_at h a) | _ \<Rightarrow> v)"

section \<open>\<^verbatim>\<open>str.strip()\<close>\<close>

text \<open>
  The characters Python's \<^verbatim>\<open>str.strip()\<close> removes, among the code points below 256:
  tab to carriage return, the four separators 28 to 31, space, NEL (133) and the
  no-break space (160).
\<close>

definition py_isspace :: "char \<Rightarrow> bool" where
  "py_isspace c =
     (let n = (of_char c :: nat)
      in (9 \<le> n \<and> n \<le> 13) \<or> (28 \<le> n \<and> n \<le> 32) \<or> n = 133 \<or> n = 160)"

definition strip :: "string \<Rightarrow> string" where
  "strip s = rev (dropWhile py_isspace (rev (dropWhile py_isspace s)))"

section \<open>Variable grammar\<close>

text \<open>
  Modelled from the spec: the compiled patterns \<^verbatim>\<open>_variable_match\<close> and
  \<^verbatim>\<open>_variable_parse\<close> belong to the base class PlaybookABC, which is not among the
  sources. The spec (4.1) gives the pattern as
  \<^verbatim>\<open>#App:\d+:[A-Za-z0-9_.\-]+!\w+\<close>: the literal prefix, the job id digits, a colon, the
  name, an exclamation mark and the type token. The group numbers are those the code
  reads: group 0 is the whole match, group 2 the job id, group 3 the name and group 4
  the type; group 1 is taken to be the word after the hash sign.
  \<open>\d\<close> and \<open>\w\<close> are read over ASCII.
\<close>

definition is_digit :: "char \<Rightarrow> bool" where
  "is_digit c = (let n = (of_char c :: nat) in 48 \<le> n \<and> n \<le> 57)"

definition is_word_char :: "char \<Rightarrow> bool" where
  "is_word_char c =
     (let n = (of_char c :: nat)
      in (48 \<le> n \<and> n \<le> 57) \<or> (65 \<le> n \<and> n \<le> 90) \<or> (97 \<le> n \<and> n \<le> 122) \<or> n = 95)"

definition is_name_char :: "char \<Rightarrow> bool" where
  "is_name_char c =
     (let n = (of_char c :: nat)
      in (48 \<le> n \<and> n \<le> 57) \<or> (65 \<le> n \<and> n \<le> 90) \<or> (97 \<le> n \<and> n \<le> 122)
         \<or> n = 95 \<or> n = 46 \<or> n = 45)"

record regex_match =
  group0 :: string
  group1 :: string
  group2 :: string
  group3 :: string
  group4 :: string

fun strip_prefix :: "string \<Rightarrow> string \<Rightarrow> string option" where
  "strip_prefix [] s = Some s"
| "strip_prefix (p # ps) [] = None"
| "strip_prefix (p # ps) (c # cs) = (if p = c then strip_prefix ps cs else None)"

text \<open>
  A match of the pattern at the start of the string. Every repetition is greedy, and no
  repetition can take the delimiter that follows it, so the greedy match is the only one.
\<close>

definition match_at_start :: "string \<Rightarrow> regex_match option" where
  "match_at_start s =
     (case strip_prefix ''#App:'' s of
        None \<Rightarrow> None
      | Some r1 \<Rightarrow>
          (let ds = takeWhile is_digit r1; r2 = dropWhile is_digit r1
           in if ds = [] then None
              else (case r2 of
                      [] \<Rightarrow> None
                    | c # r3 \<Rightarrow>
                        if c \<noteq> CHR '':'' then None
                        else (let nm = takeWhile is_name_char r3; r4 = dropWhile is_name_char r3
                              in if nm = [] then None
                                 else (case r4 of
                                         [] \<Rightarrow> None
                                       | e # r5 \<Rightarrow>
                                           if e \<noteq> CHR ''!'' then None
                                           else (let ty = takeWhile is_word_char r5
                                                 in if ty = [] then None
                                                    else Some \<lparr>group0 = ''#App:'' @ ds @ '':'' @ nm @ ''!'' @ ty,
                                                               group1 = ''App'',
                                                               group2 = ds,
                                                               group3 = nm,
                                                               group4 = ty\<rparr>))))))"

text \<open>\<^verbatim>\<open>re.match(self._variable_match, s)\<close>: the pattern matches the whole string.\<close>

definition variable_match :: "string \<Rightarrow> bool" where
  "variable_match s =
     (case match_at_start s of None \<Rightarrow> False | Some m \<Rightarrow> group0 m = s)"

text \<open>\<^verbatim>\<open>re.search(self._variable_parse, s)\<close>: the leftmost match anywhere in the string.\<close>

fun variable_parse :: "string \<Rightarrow> regex_match option" where
  "variable_parse [] = None"
| "variable_parse (c # cs) =
     (case match_at_start (c # cs) of
        Some m \<Rightarrow> Some m
      | None \<Rightarrow> variable_parse cs)"

section \<open>is_variable, parse_variable, variable_type\<close>

record parsed_variable =
  pv_root :: string
  pv_job_id :: string
  pv_name :: string
  pv_type :: string

text \<open>
  \<^verbatim>\<open>
  def is_variable(self, key):
      if not isinstance(key, str):
          return False
      if re.match(self._variable_match, key):
          return True
      return False
  \<close>
\<close>

definition is_variable :: "pyval \<Rightarrow> bool" where
  "is_variable key =
     (case key of
        PStr k \<Rightarrow> (if variable_match k then True else False)
      | _ \<Rightarrow> False)"

text \<open>
  \<^verbatim>\<open>
  def parse_variable(self, variable):
      data = None
      if variable is not None:
          variable = variable.strip()
          if re.match(self._variable_match, variable):
              var = re.search(self._variable_parse, variable)
              data = {'root': var.group(0), 'job_id': var.group(2),
                      'name': var.group(3), 'type': var.group(4)}
      return data
  \<close>
  Only \<^verbatim>\<open>None\<close> is guarded: any other value that is not a string has no
  \<^verbatim>\<open>strip\<close> and raises.
\<close>

definition parse_variable :: "pyval \<Rightarrow> error + parsed_variable option" where
  "parse_variable variable =
     (case variable of
        PNone \<Rightarrow> Inr None
      | PStr s \<Rightarrow>
          (let v = strip s
           in if variable_match v
              then (case variable_parse v of
                      None \<Rightarrow> Inl AttributeError
                    | Some var \<Rightarrow>
                        Inr (Some \<lparr>pv_root = group0 var, pv_job_id = group2 var,
                                   pv_name = group3 var, pv_type = group4 var\<rparr>))
              else Inr None)
      | _ \<Rightarrow> Inl AttributeError)"

text \<open>
  \<^verbatim>\<open>
  def variable_type(self, variable):
      var_type = 'String'
      if isinstance(variable, str):
          variable = variable.strip()
          if re.match(self._variable_match, variable):
              var_type = re.search(self._variable_parse, variable).group(4)
      return var_type
  \<close>
\<close>

definition variable_type :: "pyval \<Rightarrow> error + string" where
  "variable_type variable =
     (case variable of
        PStr s \<Rightarrow>
          (let v = strip s
           in if variable_match v
              then (case variable_parse v of
                      None \<Rightarrow> Inl AttributeError
                    | Some var \<Rightarrow> Inr (group4 var))
              else Inr ''String'')
      | _ \<Rightarrow> Inr ''String'')"


text \<open>
  The grammar in the words of the spec, \<^verbatim>\<open>#App:<job_id>:<name>!<type>\<close>, kept apart from
  the matcher: the three parts and the string they spell.
\<close>

definition well_formed :: "string \<Rightarrow> string \<Rightarrow> string \<Rightarrow> bool" where
  "well_formed ds nm ty =
     (ds \<noteq> [] \<and> list_all is_digit ds \<and> nm \<noteq> [] \<and> list_all is_name_char nm
      \<and> ty \<noteq> [] \<and> list_all is_word_char ty)"

definition variable_string :: "string \<Rightarrow> string \<Rightarrow> string \<Rightarrow> string" where
  "variable_string ds nm ty = ''#App:'' @ ds @ '':'' @ nm @ ''!'' @ ty"

section \<open>Type classifier\<close>

text \<open>
  Modelled from the spec: the tables \<^verbatim>\<open>_variable_single_types\<close> and
  \<^verbatim>\<open>_variable_array_types\<close> of PlaybookABC are not among the sources. The spec (4.2
  and 6) names five single types and the array form of each.
\<close>

definition variable_single_types :: "string list" where
  "variable_single_types =
     [''Binary'', ''KeyValue'', ''String'', ''TCEntity'', ''TCEnhancedEntity'']"

definition variable_array_types :: "string list" where
  "variable_array_types =
     [''BinaryArray'', ''KeyValueArray'', ''StringArray'', ''TCEntityArray'',
      ''TCEnhancedEntityArray'']"

section \<open>Dictionaries\<close>

text \<open>
  A Python dictionary keeps its keys in insertion order, and \<^verbatim>\<open>values()\<close> iterates in
  that order: an association list, read with \<open>map_of\<close>. Assigning to a key that is
  present keeps its place; a new key goes to the end.
\<close>

fun dict_set :: "(string \<times> 'v) list \<Rightarrow> string \<Rightarrow> 'v \<Rightarrow> (string \<times> 'v) list" where
  "dict_set [] k v = [(k, v)]"
| "dict_set ((k', v') # d) k v =
     (if k' = k then (k, v) # d else (k', v') # dict_set d k v)"

definition dict_setdefault :: "(string \<times> 'v) list \<Rightarrow> string \<Rightarrow> 'v \<Rightarrow> (string \<times> 'v) list" where
  "dict_setdefault d k v = (case map_of d k of None \<Rightarrow> d @ [(k, v)] | Some _ \<Rightarrow> d)"

section \<open>The Playbook object\<close>

text \<open>
  An entry of \<^verbatim>\<open>output_data\<close> is a dictionary with at most the keys \<^verbatim>\<open>key\<close>,
  \<^verbatim>\<open>type\<close> and \<^verbatim>\<open>value\<close>; a field that is \<open>None\<close> here is a key the dictionary does
  not have, and \<^verbatim>\<open>{}\<close> is \<open>empty_record\<close>.
\<close>

record output_record =
  rec_key :: "string option"
  rec_type :: "string option"
  rec_value :: "pyval option"

definition empty_record :: output_record where
  "empty_record = \<lparr>rec_key = None, rec_type = None, rec_value = None\<rparr>"

text \<open>
  The state of a Playbook: the key value store with its context (of any type \<open>'s\<close>),
  the two indices of the requested output variables (each entry \<^verbatim>\<open>{'variable': ov}\<close>
  is kept as \<open>ov\<close>) and the output buffer; and with it the list objects that the
  Playbook shares with its callers.
\<close>

record 's playbook =
  key_value_store :: 's
  output_variables_by_type :: "(string \<times> string) list"
  output_variables_by_name :: "(string \<times> string) list"
  output_data :: "(string \<times> output_record) list"
  list_objects :: "pyval list list"

text \<open>
  The methods inherited from PlaybookABC, which is not among the sources, are parameters:
  the three write paths \<^verbatim>\<open>_create\<close>, \<^verbatim>\<open>_create_array\<close> and \<^verbatim>\<open>create_raw\<close>
  (key, value; they return the store's acknowledgment and the new store, or raise) and
  the read paths \<^verbatim>\<open>_read\<close>, \<^verbatim>\<open>_read_array\<close> (key, embedded), \<^verbatim>\<open>read_raw\<close> (key)
  and \<^verbatim>\<open>_read_embedded\<close> (value). They change the store only; a write path may
  read the list objects, since the value it is given can be one of them.
\<close>

record 's playbook_abc =
  abc_create :: "string \<Rightarrow> pyval \<Rightarrow> pyval list list \<Rightarrow> 's \<Rightarrow> error + (pyval \<times> 's)"
  abc_create_array :: "string \<Rightarrow> pyval \<Rightarrow> pyval list list \<Rightarrow> 's \<Rightarrow> error + (pyval \<times> 's)"
  abc_create_raw :: "string \<Rightarrow> pyval \<Rightarrow> pyval list list \<Rightarrow> 's \<Rightarrow> error + (pyval \<times> 's)"
  abc_read :: "string \<Rightarrow> bool \<Rightarrow> 's \<Rightarrow> error + pyval"
  abc_read_array :: "string \<Rightarrow> bool \<Rightarrow> 's \<Rightarrow> error + pyval"
  abc_read_raw :: "string \<Rightarrow> 's \<Rightarrow> error + pyval"
  abc_read_embedded :: "pyval \<Rightarrow> 's \<Rightarrow> error + pyval"

text \<open>A write path run on the Playbook's store.\<close>

definition on_store ::
  "(pyval list list \<Rightarrow> 's \<Rightarrow> error + (pyval \<times> 's)) \<Rightarrow> 's playbook
   \<Rightarrow> error + (pyval \<times> 's playbook)" where
  "on_store w pb =
     (case w (list_objects pb) (key_value_store pb) of
        Inl e \<Rightarrow> Inl e
      | Inr (data, s') \<Rightarrow> Inr (data, pb\<lparr>key_value_store := s'\<rparr>))"

text \<open>
  Modelled from the spec: \<^verbatim>\<open>_parse_output_variables\<close> of PlaybookABC is not among the
  sources. The spec (3 and 4.4): each requested variable string is parsed into name and
  type and entered in both mappings, by name and by \<^verbatim>\<open>name-type\<close>, each value holding
  the requested string. A string that does not parse has no name and no type; it is
  taken to raise.
\<close>

fun parse_output_variables ::
  "string list \<Rightarrow> (string \<times> string) list \<times> (string \<times> string) list
   \<Rightarrow> error + ((string \<times> string) list \<times> (string \<times> string) list)" where
  "parse_output_variables [] idx = Inr idx"
| "parse_output_variables (ov # ovs) (by_name, by_type) =
     (case parse_variable (PStr ov) of
        Inl e \<Rightarrow> Inl e
      | Inr None \<Rightarrow> Inl AttributeError
      | Inr (Some p) \<Rightarrow>
          parse_output_variables ovs
            (dict_set by_name (pv_name p) ov,
             dict_set by_type (pv_name p @ ''-'' @ pv_type p) ov))"

text \<open>
  The constructor: \<^verbatim>\<open>output_variables\<close> may be absent, and \<^verbatim>\<open>output_data\<close> starts
  empty. No list object is shared with the Playbook yet.
\<close>

definition playbook_init :: "'s \<Rightarrow> string list option \<Rightarrow> error + 's playbook" where
  "playbook_init store output_variables =
     (case parse_output_variables (case output_variables of None \<Rightarrow> [] | Some ovs \<Rightarrow> ovs) ([], []) of
        Inl e \<Rightarrow> Inl e
      | Inr (by_name, by_type) \<Rightarrow>
          Inr \<lparr>key_value_store = store, output_variables_by_type = by_type,
               output_variables_by_name = by_name, output_data = [], list_objects = []\<rparr>)"

section \<open>create\<close>

text \<open>
  \<^verbatim>\<open>
  def create(self, key, value):
      data = None
      if key is not None:
          key = key.strip()
          parsed_key = self.parse_variable(key.strip())
          variable_type = parsed_key['type']
          if variable_type in self._variable_single_types:
              data = self._create(key, value)
          elif variable_type in self._variable_array_types:
              data = self._create_array(key, value)
          else:
              data = self.create_raw(key, value)
      return data
  \<close>
  \<^verbatim>\<open>parsed_key['type']\<close> on the \<^verbatim>\<open>None\<close> that parse_variable returns for a key that
  is not a variable raises TypeError.
\<close>

definition create ::
  "'s playbook_abc \<Rightarrow> string option \<Rightarrow> pyval \<Rightarrow> 's playbook \<Rightarrow> error + (pyval \<times> 's playbook)" where
  "create A key val pb =
     (case key of
        None \<Rightarrow> Inr (PNone, pb)
      | Some k \<Rightarrow>
          (let k' = strip k
           in case parse_variable (PStr (strip k')) of
                Inl e \<Rightarrow> Inl e
              | Inr None \<Rightarrow> Inl TypeError
              | Inr (Some parsed_key) \<Rightarrow>
                  (let vt = pv_type parsed_key
                   in if vt \<in> set variable_single_types then on_store (abc_create A k' val) pb
                      else if vt \<in> set variable_array_types then on_store (abc_create_array A k' val) pb
                      else on_store (abc_create_raw A k' val) pb)))"

section \<open>The strict creators\<close>

text \<open>
  \<^verbatim>\<open>
  def create_string(self, key, value):
      supported_variable_type = 'String'
      if self.variable_type(key) != supported_variable_type:
          raise RuntimeError(f'The key provided ({key}) is not a {supported_variable_type} key.')
      return self._create(key, value)
  \<close>
  and the same for the seven others, each with its type and its write path;
  create_tc_entity_array tests membership in a list of three types, and its message
  prints the list.
\<close>

definition not_a_key :: "string \<Rightarrow> string \<Rightarrow> error" where
  "not_a_key key supported =
     RuntimeError (''The key provided ('' @ key @ '') is not a '' @ supported @ '' key.'')"

fun py_repr_items :: "string list \<Rightarrow> string" where
  "py_repr_items [] = []"
| "py_repr_items [x] = CHR 0x27 # x @ [CHR 0x27]"
| "py_repr_items (x # y # ys) = CHR 0x27 # x @ [CHR 0x27] @ '', '' @ py_repr_items (y # ys)"

definition py_repr_list :: "string list \<Rightarrow> string" where
  "py_repr_list xs = ''['' @ py_repr_items xs @ '']''"

definition create_binary ::
  "'s playbook_abc \<Rightarrow> string \<Rightarrow> pyval \<Rightarrow> 's playbook \<Rightarrow> error + (pyval \<times> 's playbook)" where
  "create_binary A key val pb =
     (case variable_type (PStr key) of
        Inl e \<Rightarrow> Inl e
      | Inr vt \<Rightarrow>
          if vt \<noteq> ''Binary'' then Inl (not_a_key key ''Binary'')
          else on_store (abc_create A key val) pb)"

definition create_binary_array ::
  "'s playbook_abc \<Rightarrow> string \<Rightarrow> pyval \<Rightarrow> 's playbook \<Rightarrow> error + (pyval \<times> 's playbook)" where
  "create_binary_array A key val pb =
     (case variable_type (PStr key) of
        Inl e \<Rightarrow> Inl e
      | Inr vt \<Rightarrow>
          if vt \<noteq> ''BinaryArray'' then Inl (not_a_key key ''BinaryArray'')
          else on_store (abc_create_array A key val) pb)"

definition create_key_value ::
  "'s playbook_abc \<Rightarrow> string \<Rightarrow> pyval \<Rightarrow> 's playbook \<Rightarrow> error + (pyval \<times> 's playbook)" where
  "create_key_value A key val pb =
     (case variable_type (PStr key) of
        Inl e \<Rightarrow> Inl e
      | Inr vt \<Rightarrow>
          if vt \<noteq> ''KeyValue'' then Inl (not_a_key key ''KeyValue'')
          else on_store (abc_create A key val) pb)"

definition create_key_value_array ::
  "'s playbook_abc \<Rightarrow> string \<Rightarrow> pyval \<Rightarrow> 's playbook \<Rightarrow> error + (pyval \<times> 's playbook)" where
  "create_key_value_array A key val pb =
     (case variable_type (PStr key) of
        Inl e \<Rightarrow> Inl e
      | Inr vt \<Rightarrow>
          if vt \<noteq> ''KeyValueArray'' then Inl (not_a_key key ''KeyValueArray'')
          else on_store (abc_create_array A key val) pb)"

definition create_string ::
  "'s playbook_abc \<Rightarrow> string \<Rightarrow> pyval \<Rightarrow> 's playbook \<Rightarrow> error + (pyval \<times> 's playbook)" where
  "create_string A key val pb =
     (case variable_type (PStr key) of
        Inl e \<Rightarrow> Inl e
      | Inr vt \<Rightarrow>
          if vt \<noteq> ''String'' then Inl (not_a_key key ''String'')
          else on_store (abc_create A key val) pb)"

definition create_string_array ::
  "'s playbook_abc \<Rightarrow> string \<Rightarrow> pyval \<Rightarrow> 's playbook \<Rightarrow> error + (pyval \<times> 's playbook)" where
  "create_string_array A key val pb =
     (case variable_type (PStr key) of
        Inl e \<Rightarrow> Inl e
      | Inr vt \<Rightarrow>
          if vt \<noteq> ''StringArray'' then Inl (not_a_key key ''StringArray'')
          else on_store (abc_create_array A key val) pb)"

definition create_tc_entity ::
  "'s playbook_abc \<Rightarrow> string \<Rightarrow> pyval \<Rightarrow> 's playbook \<Rightarrow> error + (pyval \<times> 's playbook)" where
  "create_tc_entity A key val pb =
     (case variable_type (PStr key) of
        Inl e \<Rightarrow> Inl e
      | Inr vt \<Rightarrow>
          if vt \<noteq> ''TCEntity'' then Inl (not_a_key key ''TCEntity'')
          else on_store (abc_create A key val) pb)"

definition tc_entity_array_types :: "string list" where
  "tc_entity_array_types = [''TCEntityArray'', ''TCEnhancedEntity'', ''TCEnhancedEntityArray'']"

definition create_tc_entity_array ::
  "'s playbook_abc \<Rightarrow> string \<Rightarrow> pyval \<Rightarrow> 's playbook \<Rightarrow> error + (pyval \<times> 's playbook)" where
  "create_tc_entity_array A key val pb =
     (case variable_type (PStr key) of
        Inl e \<Rightarrow> Inl e
      | Inr vt \<Rightarrow>
          if vt \<notin> set tc_entity_array_types
          then Inl (not_a_key key (py_repr_list tc_entity_array_types))
          else on_store (abc_create_array A key val) pb)"

section \<open>create_output\<close>

text \<open>
  \<^verbatim>\<open>
  def create_output(self, key, value, variable_type=None):
      if not self.output_variables_by_type:
          return None
      if key is None:
          return None
      if value is None:
          return None
      key = key.strip()
      key_type = f'{key}-{variable_type}'
      results = None
      if self.output_variables_by_type.get(key_type) is not None:
          v = self.output_variables_by_type.get(key_type)
          results = self.create(v.get('variable'), value)
      elif self.output_variables_by_name.get(key) is not None and variable_type is None:
          v = self.output_variables_by_name.get(key)
          results = self.create(v.get('variable'), value)
      return results
  \<close>
  An f-string prints \<^verbatim>\<open>None\<close> as the word None.
\<close>

definition format_type :: "string option \<Rightarrow> string" where
  "format_type vtype = (case vtype of None \<Rightarrow> ''None'' | Some t \<Rightarrow> t)"

definition create_output ::
  "'s playbook_abc \<Rightarrow> string option \<Rightarrow> pyval \<Rightarrow> string option \<Rightarrow> 's playbook
   \<Rightarrow> error + (pyval \<times> 's playbook)" where
  "create_output A key val vtype pb =
     (if output_variables_by_type pb = [] then Inr (PNone, pb)
      else case key of
        None \<Rightarrow> Inr (PNone, pb)
      | Some k \<Rightarrow>
          if val = PNone then Inr (PNone, pb)
          else (let k' = strip k; key_type = k' @ ''-'' @ format_type vtype
                in if map_of (output_variables_by_type pb) key_type \<noteq> None
                   then create A (map_of (output_variables_by_type pb) key_type) val pb
                   else if map_of (output_variables_by_name pb) k' \<noteq> None \<and> vtype = None
                   then create A (map_of (output_variables_by_name pb) k') val pb
                   else Inr (PNone, pb)))"

section \<open>add_output and write_output\<close>

text \<open>
  \<^verbatim>\<open>
  def add_output(self, key, value, variable_type, append_array=True):
      index = f'{key}-{variable_type}'
      self.output_data.setdefault(index, {})
      if value is None:
          if variable_type not in self._variable_array_types:
              return
          if not append_array and variable_type in self._variable_array_types:
              return
      if variable_type in self._variable_array_types and append_array:
          self.output_data[index].setdefault('key', key)
          self.output_data[index].setdefault('type', variable_type)
          if isinstance(value, list):
              self.output_data[index].setdefault('value', []).extend(value)
          else:
              self.output_data[index].setdefault('value', []).append(value)
      else:
          self.output_data[index] = {'key': key, 'type': variable_type, 'value': value}
  \<close>
  \<^verbatim>\<open>setdefault('value', [])\<close> returns the value already buffered when there is one,
  and otherwise a new list that only the record holds; \<^verbatim>\<open>extend\<close> and \<^verbatim>\<open>append\<close>
  exist on a list only, and change the list object in place: a shared one for everyone
  who holds it. The last line buffers the value it is given, which for a list is the
  caller's list object itself. A call that raises has already entered the index, and the
  key and type of the record: the exception comes with the state it leaves.
\<close>

definition setdefault_field :: "'a option \<Rightarrow> 'a \<Rightarrow> 'a option" where
  "setdefault_field f v = (case f of None \<Rightarrow> Some v | Some old \<Rightarrow> Some old)"

text \<open>
  What \<^verbatim>\<open>extend\<close> or \<^verbatim>\<open>append\<close> adds: the elements of a list value as they are at
  the call, or the value as one element.
\<close>

definition added_items :: "pyval list list \<Rightarrow> pyval \<Rightarrow> pyval list" where
  "added_items h val =
     (case val of PList vs \<Rightarrow> vs | PRef b \<Rightarrow> object_at h b | _ \<Rightarrow> [val])"

definition add_output ::
  "string \<Rightarrow> pyval \<Rightarrow> string \<Rightarrow> bool \<Rightarrow> 's playbook
   \<Rightarrow> (error \<times> 's playbook) + 's playbook" where
  "add_output key val vtype append_array pb =
     (let index = key @ ''-'' @ vtype;
          od = dict_setdefault (output_data pb) index empty_record
      in if val = PNone \<and> vtype \<notin> set variable_array_types
         then Inr (pb\<lparr>output_data := od\<rparr>)
         else if val = PNone \<and> \<not> append_array \<and> vtype \<in> set variable_array_types
         then Inr (pb\<lparr>output_data := od\<rparr>)
         else if vtype \<in> set variable_array_types \<and> append_array
         then (case map_of od index of
                 None \<Rightarrow> Inl (KeyError, pb\<lparr>output_data := od\<rparr>)
               | Some r \<Rightarrow>
                   (let r' = r\<lparr>rec_key := setdefault_field (rec_key r) key,
                               rec_type := setdefault_field (rec_type r) vtype\<rparr>
                    in case setdefault_field (rec_value r') (PList []) of
                         Some (PList xs) \<Rightarrow>
                           Inr (pb\<lparr>output_data :=
                                  dict_set od index
                                    (r'\<lparr>rec_value :=
                                         Some (PList (xs @ added_items (list_objects pb) val))\<rparr>)\<rparr>)
                       | Some (PRef a) \<Rightarrow>
                           Inr (pb\<lparr>output_data := dict_set od index r',
                                   list_objects :=
                                     set_object (list_objects pb) a
                                       (object_at (list_objects pb) a
                                        @ added_items (list_objects pb) val)\<rparr>)
                       | _ \<Rightarrow> Inl (AttributeError, pb\<lparr>output_data := dict_set od index r'\<rparr>)))
         else Inr (pb\<lparr>output_data :=
                       dict_set od index
                         \<lparr>rec_key = Some key, rec_type = Some vtype, rec_value = Some val\<rparr>\<rparr>))"

text \<open>The state after a call, whether it returned or raised.\<close>

definition state_after :: "(error \<times> 's playbook) + 's playbook \<Rightarrow> 's playbook" where
  "state_after r = (case r of Inl (e, pb') \<Rightarrow> pb' | Inr pb' \<Rightarrow> pb')"

text \<open>
  The elements of the list that the record under an index holds, if it holds a list:
  through the list objects when the list is a shared one.
\<close>

definition buffered_items :: "'s playbook \<Rightarrow> string \<Rightarrow> pyval list option" where
  "buffered_items pb index =
     (case map_of (output_data pb) index of
        None \<Rightarrow> None
      | Some d \<Rightarrow>
          (case rec_value d of
             Some (PList xs) \<Rightarrow> Some xs
           | Some (PRef a) \<Rightarrow> Some (object_at (list_objects pb) a)
           | _ \<Rightarrow> None))"

text \<open>
  \<^verbatim>\<open>
  def write_output(self):
      for data in self.output_data.values():
          self.create_output(data.get('key'), data.get('value'), data.get('type'))
  \<close>
  \<^verbatim>\<open>data.get\<close> of a key the record does not have is \<^verbatim>\<open>None\<close>. The result of each
  create_output is dropped; an exception ends the loop.
\<close>

definition get_value :: "output_record \<Rightarrow> pyval" where
  "get_value d = (case rec_value d of None \<Rightarrow> PNone | Some v \<Rightarrow> v)"

fun write_output_loop ::
  "'s playbook_abc \<Rightarrow> output_record list \<Rightarrow> 's playbook \<Rightarrow> error + 's playbook" where
  "write_output_loop A [] pb = Inr pb"
| "write_output_loop A (d # ds) pb =
     (case create_output A (rec_key d) (get_value d) (rec_type d) pb of
        Inl e \<Rightarrow> Inl e
      | Inr (_, pb') \<Rightarrow> write_output_loop A ds pb')"

definition write_output :: "'s playbook_abc \<Rightarrow> 's playbook \<Rightarrow> error + 's playbook" where
  "write_output A pb = write_output_loop A (map snd (output_data pb)) pb"

section \<open>read\<close>

text \<open>
  The two substitutions of read on a literal string.
  \<^verbatim>\<open>re.sub(r'(?<!\\)\\s', ' ', value)\<close> replaces, from left to right, a backslash
  followed by s by a space, unless the character before the backslash in the subject is a
  backslash; \<open>prev\<close> is that character. \<^verbatim>\<open>re.sub(r'\\\\s', r'\\s', value)\<close> replaces
  two backslashes followed by s by one backslash and s.
\<close>

definition backslash :: char where
  "backslash = CHR 0x5C"

fun sub_space :: "char option \<Rightarrow> string \<Rightarrow> string" where
  "sub_space prev (c # d # cs) =
     (if c = backslash \<and> d = CHR ''s'' \<and> prev \<noteq> Some backslash
      then CHR '' '' # sub_space (Some d) cs
      else c # sub_space (Some c) (d # cs))"
| "sub_space prev cs = cs"

fun sub_escaped :: "string \<Rightarrow> string" where
  "sub_escaped (a # b # c # cs) =
     (if a = backslash \<and> b = backslash \<and> c = CHR ''s''
      then backslash # CHR ''s'' # sub_escaped cs
      else a # sub_escaped (b # c # cs))"
| "sub_escaped cs = cs"

text \<open>
  \<^verbatim>\<open>
  def read(self, key, array=False, embedded=True):
      value = key
      if isinstance(key, str):
          key = key.strip()
          variable_type = self.variable_type(key)
          if re.match(self._variable_match, key):
              if variable_type in self._variable_single_types:
                  value = self._read(key=key, embedded=embedded)
              elif variable_type in self._variable_array_types:
                  value = self._read_array(key=key, embedded=embedded)
              else:
                  value = self.read_raw(key)
          else:
              if variable_type == 'String':
                  value = re.sub(r'(?<!\\)\\s', ' ', value)
                  value = re.sub(r'\\\\s', r'\\s', value)
              if embedded:
                  value = self._read_embedded(value)
      if array and not isinstance(value, list):
          if value is not None:
              value = [value]
          else:
              value = []
      return value
  \<close>
  The substitutions run on \<^verbatim>\<open>value\<close>, the key as it was passed, not on the stripped
  key. \<open>read_value\<close> is the part before the list coercion.
\<close>

definition read_value ::
  "'s playbook_abc \<Rightarrow> pyval \<Rightarrow> bool \<Rightarrow> 's playbook \<Rightarrow> error + pyval" where
  "read_value A key embedded pb =
     (case key of
        PStr k0 \<Rightarrow>
          (let k = strip k0
           in case variable_type (PStr k) of
                Inl e \<Rightarrow> Inl e
              | Inr vt \<Rightarrow>
                  if variable_match k
                  then (if vt \<in> set variable_single_types
                        then abc_read A k embedded (key_value_store pb)
                        else if vt \<in> set variable_array_types
                        then abc_read_array A k embedded (key_value_store pb)
                        else abc_read_raw A k (key_value_store pb))
                  else (let v = (if vt = ''String'' then sub_escaped (sub_space None k0) else k0)
                        in if embedded then abc_read_embedded A (PStr v) (key_value_store pb)
                           else Inr (PStr v)))
      | _ \<Rightarrow> Inr key)"

definition read ::
  "'s playbook_abc \<Rightarrow> pyval \<Rightarrow> bool \<Rightarrow> bool \<Rightarrow> 's playbook \<Rightarrow> error + pyval" where
  "read A key array embedded pb =
     (case read_value A key embedded pb of
        Inl e \<Rightarrow> Inl e
      | Inr v \<Rightarrow>
          if array \<and> \<not> is_list v
          then (if v \<noteq> PNone then Inr (PList [v]) else Inr (PList []))
          else Inr v)"

section \<open>A key value store for the examples\<close>

text \<open>
  Modelled from the spec: the two adapters of the key value store are not among the
  sources. The spec (6) gives \<^verbatim>\<open>put(context, key, value) -> ack string\<close> and
  \<^verbatim>\<open>get(context, key) -> raw value | null\<close>. The store of the examples is the list of
  the writes made so far, the latest last; every write path puts the value as it is and
  every read path gets the latest value written, with nothing embedded to resolve. A
  list object is written by the elements it has at the write.
\<close>

definition store_put ::
  "string \<Rightarrow> pyval \<Rightarrow> pyval list list \<Rightarrow> (string \<times> pyval) list
   \<Rightarrow> error + (pyval \<times> (string \<times> pyval) list)" where
  "store_put k v h s = Inr (PStr ''OK'', s @ [(k, snapshot h v)])"

definition store_get :: "string \<Rightarrow> (string \<times> pyval) list \<Rightarrow> error + pyval" where
  "store_get k s = Inr (case map_of (rev s) k of None \<Rightarrow> PNone | Some v \<Rightarrow> v)"

definition example_abc :: "(string \<times> pyval) list playbook_abc" where
  "example_abc =
     \<lparr>abc_create = store_put, abc_create_array = store_put, abc_create_raw = store_put,
      abc_read = (\<lambda>k embedded. store_get k),
      abc_read_array = (\<lambda>k embedded. store_get k),
      abc_read_raw = store_get,
      abc_read_embedded = (\<lambda>v s. Inr v)\<rparr>"

text \<open>A store that cannot be reached: every path raises.\<close>

definition offline_abc :: "(string \<times> pyval) list playbook_abc" where
  "offline_abc =
     \<lparr>abc_create = (\<lambda>k v h s. Inl (StoreError ''offline'')),
      abc_create_array = (\<lambda>k v h s. Inl (StoreError ''offline'')),
      abc_create_raw = (\<lambda>k v h s. Inl (StoreError ''offline'')),
      abc_read = (\<lambda>k embedded s. Inl (StoreError ''offline'')),
      abc_read_array = (\<lambda>k embedded s. Inl (StoreError ''offline'')),
      abc_read_raw = (\<lambda>k s. Inl (StoreError ''offline'')),
      abc_read_embedded = (\<lambda>v s. Inl (StoreError ''offline''))\<rparr>"

text \<open>
  A Playbook on the empty store with the given indices and buffer, and no shared list
  object.
\<close>

definition example_playbook ::
  "(string \<times> string) list \<Rightarrow> (string \<times> string) list \<Rightarrow> (string \<times> output_record) list
   \<Rightarrow> (string \<times> pyval) list playbook" where
  "example_playbook by_type by_name buffer =
     \<lparr>key_value_store = [], output_variables_by_type = by_type,
      output_variables_by_name = by_name, output_data = buffer, list_objects = []\<rparr>"

section \<open>Properties of the grammar\<close>

lemma colon_not_digit: "\<not> is_digit CHR '':''"
  by (simp add: is_digit_def)

lemma bang_not_name_char: "\<not> is_name_char CHR ''!''"
  by (simp add: is_name_char_def)

lemma word_char_not_space: "is_word_char c \<Longrightarrow> \<not> py_isspace c"
  by (auto simp: is_word_char_def py_isspace_def Let_def)

lemma hash_not_space: "\<not> py_isspace CHR ''#''"
  by (simp add: py_isspace_def)

lemma takeWhile_run:
  "\<forall>x\<in>set xs. P x \<Longrightarrow> ys = [] \<or> \<not> P (hd ys) \<Longrightarrow> takeWhile P (xs @ ys) = xs"
  by (induction xs) (auto simp: takeWhile_eq_Nil_iff neq_Nil_conv)

lemma dropWhile_run:
  "\<forall>x\<in>set xs. P x \<Longrightarrow> ys = [] \<or> \<not> P (hd ys) \<Longrightarrow> dropWhile P (xs @ ys) = ys"
  by (induction xs) (auto simp: dropWhile_eq_self_iff neq_Nil_conv)

lemma strip_prefix_Some: "strip_prefix p s = Some r \<Longrightarrow> s = p @ r"
  by (induction p s rule: strip_prefix.induct) (auto split: if_splits)

lemma match_at_start_variable_string:
  assumes "well_formed ds nm ty" and "rest = [] \<or> \<not> is_word_char (hd rest)"
  shows "match_at_start (variable_string ds nm ty @ rest) =
     Some \<lparr>group0 = variable_string ds nm ty, group1 = ''App'',
           group2 = ds, group3 = nm, group4 = ty\<rparr>"
proof -
  have digits: "\<forall>c\<in>set ds. is_digit c" and names: "\<forall>c\<in>set nm. is_name_char c"
    and words: "\<forall>c\<in>set ty. is_word_char c"
    and ne: "ds \<noteq> []" "nm \<noteq> []" "ty \<noteq> []"
    using assms(1) by (simp_all add: well_formed_def list_all_iff)
  have p: "strip_prefix ''#App:'' (''#App:'' @ ds @ '':'' @ nm @ ''!'' @ ty @ rest)
      = Some (ds @ '':'' @ nm @ ''!'' @ ty @ rest)"
    by simp
  have t1: "takeWhile is_digit (ds @ '':'' @ nm @ ''!'' @ ty @ rest) = ds"
    using digits by (intro takeWhile_run) (simp_all add: colon_not_digit)
  have d1: "dropWhile is_digit (ds @ '':'' @ nm @ ''!'' @ ty @ rest) = '':'' @ nm @ ''!'' @ ty @ rest"
    using digits by (intro dropWhile_run) (simp_all add: colon_not_digit)
  have t2: "takeWhile is_name_char (nm @ ''!'' @ ty @ rest) = nm"
    using names by (intro takeWhile_run) (simp_all add: bang_not_name_char)
  have d2: "dropWhile is_name_char (nm @ ''!'' @ ty @ rest) = ''!'' @ ty @ rest"
    using names by (intro dropWhile_run) (simp_all add: bang_not_name_char)
  have t3: "takeWhile is_word_char (ty @ rest) = ty"
    using words assms(2) by (intro takeWhile_run) simp_all
  have "match_at_start (''#App:'' @ ds @ '':'' @ nm @ ''!'' @ ty @ rest) =
     Some \<lparr>group0 = ''#App:'' @ ds @ '':'' @ nm @ ''!'' @ ty, group1 = ''App'',
           group2 = ds, group3 = nm, group4 = ty\<rparr>"
    unfolding match_at_start_def p using ne t1 d1 t2 d2 t3 by (simp add: Let_def)
  then show ?thesis by (simp add: variable_string_def)
qed

lemma variable_match_variable_string:
  "well_formed ds nm ty \<Longrightarrow> variable_match (variable_string ds nm ty)"
  using match_at_start_variable_string [of ds nm ty "[]"]
  by (simp add: variable_match_def)

lemma variable_parse_variable_string:
  assumes "well_formed ds nm ty"
  shows "variable_parse (variable_string ds nm ty) =
     Some \<lparr>group0 = variable_string ds nm ty, group1 = ''App'',
           group2 = ds, group3 = nm, group4 = ty\<rparr>"
proof -
  obtain c cs where s: "variable_string ds nm ty = c # cs"
    by (simp add: variable_string_def)
  have "match_at_start (c # cs) = Some \<lparr>group0 = c # cs, group1 = ''App'',
           group2 = ds, group3 = nm, group4 = ty\<rparr>"
    using match_at_start_variable_string [OF assms, of "[]"] s by simp
  then show ?thesis by (simp add: s)
qed

lemma variable_match_grammar:
  assumes "variable_match s"
  shows "\<exists>ds nm ty. well_formed ds nm ty \<and> s = variable_string ds nm ty"
proof -
  obtain m where m: "match_at_start s = Some m" and g: "group0 m = s"
    using assms by (auto simp: variable_match_def split: option.splits)
  obtain r1 where r1: "strip_prefix ''#App:'' s = Some r1"
    using m by (auto simp: match_at_start_def split: option.splits)
  let ?ds = "takeWhile is_digit r1"
  obtain r3 where r3: "dropWhile is_digit r1 = CHR '':'' # r3" and ds: "?ds \<noteq> []"
    using m r1
    by (auto simp: match_at_start_def Let_def split: option.splits list.splits if_splits)
  let ?nm = "takeWhile is_name_char r3"
  obtain r5 where r5: "dropWhile is_name_char r3 = CHR ''!'' # r5" and nm: "?nm \<noteq> []"
    using m r1 r3 ds
    by (auto simp: match_at_start_def Let_def split: option.splits list.splits if_splits)
  let ?ty = "takeWhile is_word_char r5"
  have ty: "?ty \<noteq> []" and m': "group0 m = ''#App:'' @ ?ds @ '':'' @ ?nm @ ''!'' @ ?ty"
    using m r1 r3 ds r5 nm
    by (auto simp: match_at_start_def Let_def split: option.splits list.splits if_splits)
  have "well_formed ?ds ?nm ?ty"
    using ds nm ty by (auto simp: well_formed_def list_all_iff dest: set_takeWhileD)
  moreover have "s = variable_string ?ds ?nm ?ty"
    using g m' by (simp add: variable_string_def)
  ultimately show ?thesis by blast
qed

lemma variable_match_iff:
  "variable_match s \<longleftrightarrow> (\<exists>ds nm ty. well_formed ds nm ty \<and> s = variable_string ds nm ty)"
  using variable_match_grammar variable_match_variable_string by blast

lemma strip_padded:
  assumes "list_all py_isspace w" and "list_all py_isspace w'" and "v \<noteq> []"
    and "\<not> py_isspace (hd v)" and "\<not> py_isspace (last v)"
  shows "strip (w @ v @ w') = v"
proof -
  have "dropWhile py_isspace (w @ v @ w') = v @ w'"
    using assms(1,3,4) by (intro dropWhile_run) (simp_all add: list_all_iff)
  moreover have "dropWhile py_isspace (rev w' @ rev v) = rev v"
    using assms(2,3,5) by (intro dropWhile_run) (simp_all add: list_all_iff hd_rev)
  ultimately show ?thesis by (simp add: strip_def)
qed

lemma strip_unpadded:
  "v \<noteq> [] \<Longrightarrow> \<not> py_isspace (hd v) \<Longrightarrow> \<not> py_isspace (last v) \<Longrightarrow> strip v = v"
  using strip_padded [of "[]" "[]" v] by simp

lemma strip_ends:
  "strip s = [] \<or> (\<not> py_isspace (hd (strip s)) \<and> \<not> py_isspace (last (strip s)))"
proof -
  let ?t = "dropWhile py_isspace s"
  let ?u = "dropWhile py_isspace (rev ?t)"
  have s: "strip s = rev ?u" by (simp add: strip_def)
  show ?thesis
  proof (cases "?u = []")
    case True
    then show ?thesis by (simp add: s)
  next
    case False
    then have u: "\<not> py_isspace (hd ?u)" by (metis hd_dropWhile)
    have "\<exists>p. rev ?t = p @ ?u" by (metis takeWhile_dropWhile_id)
    then obtain p where "rev ?t = p @ ?u" ..
    then have t: "?t = rev ?u @ rev p" by (metis rev_append rev_rev_ident)
    from t False have "?t \<noteq> []" by (metis Nil_is_append_conv rev_is_Nil_conv)
    then have "\<not> py_isspace (hd ?t)" by (metis hd_dropWhile)
    moreover have "hd ?t = hd (rev ?u)" using t False by (metis hd_append2 rev_is_Nil_conv)
    ultimately show ?thesis using u False by (simp add: s last_rev)
  qed
qed

lemma strip_idem: "strip (strip s) = strip s"
  using strip_ends [of s] by (cases "strip s = []") (auto simp: strip_unpadded, simp add: strip_def)

lemma variable_string_ends:
  assumes "well_formed ds nm ty"
  shows "variable_string ds nm ty \<noteq> []"
    and "hd (variable_string ds nm ty) = CHR ''#''"
    and "is_word_char (last (variable_string ds nm ty))"
  using assms by (auto simp: variable_string_def well_formed_def list_all_iff)

lemma strip_variable_string:
  assumes "well_formed ds nm ty" and "list_all py_isspace w" and "list_all py_isspace w'"
  shows "strip (w @ variable_string ds nm ty @ w') = variable_string ds nm ty"
  using variable_string_ends [OF assms(1)] assms(2,3)
  by (intro strip_padded) (simp_all add: hash_not_space word_char_not_space)

lemma match_at_start_hash: "match_at_start s = Some m \<Longrightarrow> s \<noteq> [] \<and> hd s = CHR ''#''"
  by (auto simp: match_at_start_def split: option.splits dest!: strip_prefix_Some)

lemma padded_not_match:
  assumes "w \<noteq> []" and "list_all py_isspace w"
  shows "\<not> variable_match (w @ v)"
proof
  assume "variable_match (w @ v)"
  then obtain m where "match_at_start (w @ v) = Some m"
    by (auto simp: variable_match_def split: option.splits)
  then have "hd (w @ v) = CHR ''#''" by (auto dest: match_at_start_hash)
  then have "py_isspace CHR ''#''" using assms by (cases w) auto
  then show False by (simp add: hash_not_space)
qed

lemma variable_match_parse:
  "variable_match s \<Longrightarrow> \<exists>m. variable_parse s = Some m \<and> group0 m = s"
  by (cases s) (auto simp: variable_match_def split: option.splits dest: match_at_start_hash)

lemma parse_variable_variable_string:
  assumes "well_formed ds nm ty" and "list_all py_isspace w" and "list_all py_isspace w'"
  shows "parse_variable (PStr (w @ variable_string ds nm ty @ w')) =
     Inr (Some \<lparr>pv_root = variable_string ds nm ty, pv_job_id = ds, pv_name = nm, pv_type = ty\<rparr>)"
  using assms
  by (simp add: parse_variable_def strip_variable_string variable_match_variable_string
      variable_parse_variable_string)

lemma variable_type_variable_string:
  assumes "well_formed ds nm ty" and "list_all py_isspace w" and "list_all py_isspace w'"
  shows "variable_type (PStr (w @ variable_string ds nm ty @ w')) = Inr ty"
  using assms
  by (simp add: variable_type_def strip_variable_string variable_match_variable_string
      variable_parse_variable_string)

lemma parse_variable_not_match:
  "\<not> variable_match (strip s) \<Longrightarrow> parse_variable (PStr s) = Inr None"
  by (simp add: parse_variable_def)

lemma variable_type_not_match:
  "\<not> variable_match (strip s) \<Longrightarrow> variable_type (PStr s) = Inr ''String''"
  by (simp add: variable_type_def)

lemma parse_variable_not_string:
  "v \<noteq> PNone \<Longrightarrow> \<forall>k. v \<noteq> PStr k \<Longrightarrow> parse_variable v = Inl AttributeError"
  by (cases v) (simp_all add: parse_variable_def)

lemma variable_type_total: "\<exists>t. variable_type v = Inr t"
  by (cases v) (auto simp: variable_type_def Let_def dest: variable_match_parse)

lemma well_formed_example: "well_formed ''1'' ''x'' ''Binary''"
  by (simp add: well_formed_def is_digit_def is_name_char_def is_word_char_def)

section \<open>The grammar functions\<close>

text \<open>
  C2 (amended). For every string spelled \<^verbatim>\<open>#App:<digits>:<name>!<type>\<close>, is_variable is
  true and parse_variable recovers exactly the job id, the name and the type. is_variable
  is false for every string that is not of this form and for every value that is not a
  string. parse_variable returns null, and variable_type returns the default type
  String, for every string that is not of this form once stripped; parse_variable
  returns null for null, and variable_type returns String for every value that is not a
  string.
\<close>

theorem grammar_functions:
  "(well_formed ds nm ty \<longrightarrow>
      is_variable (PStr (variable_string ds nm ty)) = True
      \<and> parse_variable (PStr (variable_string ds nm ty)) =
          Inr (Some \<lparr>pv_root = variable_string ds nm ty, pv_job_id = ds,
                     pv_name = nm, pv_type = ty\<rparr>))
   \<and> (\<not> (\<exists>d n t. well_formed d n t \<and> s = variable_string d n t) \<longrightarrow>
      is_variable (PStr s) = False)
   \<and> ((\<forall>k. v \<noteq> PStr k) \<longrightarrow> is_variable v = False \<and> variable_type v = Inr ''String'')
   \<and> (\<not> (\<exists>d n t. well_formed d n t \<and> strip s = variable_string d n t) \<longrightarrow>
      parse_variable (PStr s) = Inr None \<and> variable_type (PStr s) = Inr ''String'')
   \<and> parse_variable PNone = Inr None"
proof (intro conjI impI)
  assume wf: "well_formed ds nm ty"
  show "is_variable (PStr (variable_string ds nm ty)) = True"
    using variable_match_variable_string [OF wf] by (simp add: is_variable_def)
  show "parse_variable (PStr (variable_string ds nm ty)) =
          Inr (Some \<lparr>pv_root = variable_string ds nm ty, pv_job_id = ds,
                     pv_name = nm, pv_type = ty\<rparr>)"
    using parse_variable_variable_string [OF wf, of "[]" "[]"] by simp
next
  assume "\<not> (\<exists>d n t. well_formed d n t \<and> s = variable_string d n t)"
  then have "\<not> variable_match s" by (simp add: variable_match_iff)
  then show "is_variable (PStr s) = False" by (simp add: is_variable_def)
next
  assume ns: "\<forall>k. v \<noteq> PStr k"
  then show "is_variable v = False" by (cases v) (simp_all add: is_variable_def)
  from ns show "variable_type v = Inr ''String''"
    by (cases v) (simp_all add: variable_type_def)
next
  assume "\<not> (\<exists>d n t. well_formed d n t \<and> strip s = variable_string d n t)"
  then have nm: "\<not> variable_match (strip s)" by (simp add: variable_match_iff)
  then show "parse_variable (PStr s) = Inr None" by (rule parse_variable_not_match)
  from nm show "variable_type (PStr s) = Inr ''String''" by (rule variable_type_not_match)
next
  show "parse_variable PNone = Inr None" by (simp add: parse_variable_def)
qed

lemma hello_not_variable: "\<not> variable_match ''hello''"
  by (simp add: variable_match_def match_at_start_def)

lemma strip_hello: "strip '' hello '' = ''hello''"
  by (simp add: strip_def py_isspace_def)

theorem grammar_functions_witness:
  "is_variable (PStr ''#App:1:x!Binary'') = True
   \<and> parse_variable (PStr ''#App:1:x!Binary'') =
       Inr (Some \<lparr>pv_root = ''#App:1:x!Binary'', pv_job_id = ''1'', pv_name = ''x'',
                  pv_type = ''Binary''\<rparr>)
   \<and> is_variable (PStr '' hello '') = False
   \<and> is_variable (PInt 5) = False \<and> variable_type (PInt 5) = Inr ''String''
   \<and> parse_variable (PStr '' hello '') = Inr None
   \<and> variable_type (PStr '' hello '') = Inr ''String''"
proof -
  have a: "\<not> (\<exists>d n t. well_formed d n t \<and> '' hello '' = variable_string d n t)"
    by (simp add: variable_string_def)
  have b: "\<not> (\<exists>d n t. well_formed d n t \<and> strip '' hello '' = variable_string d n t)"
    using hello_not_variable by (simp add: variable_match_iff strip_hello)
  have c: "\<forall>k. PInt 5 \<noteq> PStr k" by simp
  show ?thesis
    using grammar_functions [of "''1''" "''x''" "''Binary''" "'' hello ''" "PInt 5"]
      well_formed_example a b c
    by (simp add: variable_string_def)
qed

text \<open>
  The claim as written fails on a variable with a blank before it: the string is not of
  the form of the grammar, yet parse_variable returns its fields and variable_type its
  type.
\<close>

theorem grammar_functions_counterexample:
  "is_variable (PStr '' #App:1:x!Binary'') = False
   \<and> parse_variable (PStr '' #App:1:x!Binary'') =
       Inr (Some \<lparr>pv_root = ''#App:1:x!Binary'', pv_job_id = ''1'', pv_name = ''x'',
                  pv_type = ''Binary''\<rparr>)
   \<and> parse_variable (PStr '' #App:1:x!Binary'') \<noteq> Inr None
   \<and> variable_type (PStr '' #App:1:x!Binary'') = Inr ''Binary''
   \<and> variable_type (PStr '' #App:1:x!Binary'') \<noteq> Inr ''String''"
proof -
  have sp: "list_all py_isspace '' ''" by (simp add: py_isspace_def)
  have m: "\<not> variable_match ('' '' @ variable_string ''1'' ''x'' ''Binary'')"
    using sp by (intro padded_not_match) simp_all
  have p: "parse_variable (PStr ('' '' @ variable_string ''1'' ''x'' ''Binary'' @ [])) =
      Inr (Some \<lparr>pv_root = variable_string ''1'' ''x'' ''Binary'', pv_job_id = ''1'',
                 pv_name = ''x'', pv_type = ''Binary''\<rparr>)"
    using well_formed_example sp by (intro parse_variable_variable_string) simp_all
  have t: "variable_type (PStr ('' '' @ variable_string ''1'' ''x'' ''Binary'' @ [])) = Inr ''Binary''"
    using well_formed_example sp by (intro variable_type_variable_string) simp_all
  show ?thesis using m p t by (simp add: variable_string_def is_variable_def)
qed

text \<open>
  C10. parse_variable and variable_type strip their input before they match, and
  is_variable matches the string as it is. So for every well-formed variable and every
  non-empty run of blanks before it, parse_variable returns the variable's fields and
  variable_type its type, while is_variable is false: is_variable being true is not the
  same as parse_variable being non-null.
\<close>

theorem strip_before_match:
  "parse_variable (PStr s) = parse_variable (PStr (strip s))
   \<and> variable_type (PStr s) = variable_type (PStr (strip s))
   \<and> is_variable (PStr s) = variable_match s
   \<and> (well_formed ds nm ty \<and> w \<noteq> [] \<and> list_all py_isspace w \<longrightarrow>
        parse_variable (PStr (w @ variable_string ds nm ty)) =
          Inr (Some \<lparr>pv_root = variable_string ds nm ty, pv_job_id = ds,
                     pv_name = nm, pv_type = ty\<rparr>)
        \<and> variable_type (PStr (w @ variable_string ds nm ty)) = Inr ty
        \<and> is_variable (PStr (w @ variable_string ds nm ty)) = False
        \<and> (is_variable (PStr (w @ variable_string ds nm ty))
             \<noteq> (parse_variable (PStr (w @ variable_string ds nm ty)) \<noteq> Inr None)))"
proof (intro conjI impI)
  show "parse_variable (PStr s) = parse_variable (PStr (strip s))"
    by (simp add: parse_variable_def strip_idem)
  show "variable_type (PStr s) = variable_type (PStr (strip s))"
    by (simp add: variable_type_def strip_idem)
  show "is_variable (PStr s) = variable_match s"
    by (simp add: is_variable_def)
next
  assume h: "well_formed ds nm ty \<and> w \<noteq> [] \<and> list_all py_isspace w"
  then have wf: "well_formed ds nm ty" and w: "w \<noteq> []" "list_all py_isspace w"
    by simp_all
  let ?s = "w @ variable_string ds nm ty"
  show p: "parse_variable (PStr ?s) =
      Inr (Some \<lparr>pv_root = variable_string ds nm ty, pv_job_id = ds,
                 pv_name = nm, pv_type = ty\<rparr>)"
    using parse_variable_variable_string [OF wf w(2), of "[]"] by simp
  show "variable_type (PStr ?s) = Inr ty"
    using variable_type_variable_string [OF wf w(2), of "[]"] by simp
  show i: "is_variable (PStr ?s) = False"
    using padded_not_match [OF w] by (simp add: is_variable_def)
  show "is_variable (PStr ?s) \<noteq> (parse_variable (PStr ?s) \<noteq> Inr None)"
    using p i by simp
qed

theorem strip_before_match_witness:
  "parse_variable (PStr ''  #App:1:x!Binary'') =
       Inr (Some \<lparr>pv_root = ''#App:1:x!Binary'', pv_job_id = ''1'', pv_name = ''x'',
                  pv_type = ''Binary''\<rparr>)
   \<and> variable_type (PStr ''  #App:1:x!Binary'') = Inr ''Binary''
   \<and> is_variable (PStr ''  #App:1:x!Binary'') = False"
proof -
  have h: "well_formed ''1'' ''x'' ''Binary'' \<and> ''  '' \<noteq> [] \<and> list_all py_isspace ''  ''"
    using well_formed_example by (simp add: py_isspace_def)
  show ?thesis
    using strip_before_match [of "''  #App:1:x!Binary''" "''1''" "''x''" "''Binary''" "''  ''",
        THEN conjunct2, THEN conjunct2, THEN conjunct2, THEN mp, OF h]
    by (simp add: variable_string_def)
qed

section \<open>The strict creators\<close>

lemma well_formed_k_Binary: "well_formed ''1'' ''k'' ''Binary''"
  by (simp add: well_formed_def is_digit_def is_name_char_def is_word_char_def)

text \<open>
  C7. Every strict creator, on a key whose declared type (the type variable_type reads
  from the key) is not the creator's expected type, raises the RuntimeError whose message
  names the expected type, and writes nothing; create_tc_entity_array does so when the
  declared type is none of TCEntityArray, TCEnhancedEntity and TCEnhancedEntityArray. In
  particular create_string fails so on a key that declares Binary.
\<close>

theorem strict_creators_type_mismatch:
  "(variable_type (PStr key) \<noteq> Inr ''Binary'' \<longrightarrow>
      create_binary A key val pb = Inl (not_a_key key ''Binary''))
   \<and> (variable_type (PStr key) \<noteq> Inr ''BinaryArray'' \<longrightarrow>
      create_binary_array A key val pb = Inl (not_a_key key ''BinaryArray''))
   \<and> (variable_type (PStr key) \<noteq> Inr ''KeyValue'' \<longrightarrow>
      create_key_value A key val pb = Inl (not_a_key key ''KeyValue''))
   \<and> (variable_type (PStr key) \<noteq> Inr ''KeyValueArray'' \<longrightarrow>
      create_key_value_array A key val pb = Inl (not_a_key key ''KeyValueArray''))
   \<and> (variable_type (PStr key) \<noteq> Inr ''String'' \<longrightarrow>
      create_string A key val pb = Inl (not_a_key key ''String''))
   \<and> (variable_type (PStr key) \<noteq> Inr ''StringArray'' \<longrightarrow>
      create_string_array A key val pb = Inl (not_a_key key ''StringArray''))
   \<and> (variable_type (PStr key) \<noteq> Inr ''TCEntity'' \<longrightarrow>
      create_tc_entity A key val pb = Inl (not_a_key key ''TCEntity''))
   \<and> (variable_type (PStr key) \<noteq> Inr ''TCEntityArray''
      \<and> variable_type (PStr key) \<noteq> Inr ''TCEnhancedEntity''
      \<and> variable_type (PStr key) \<noteq> Inr ''TCEnhancedEntityArray'' \<longrightarrow>
      create_tc_entity_array A key val pb =
        Inl (not_a_key key (py_repr_list tc_entity_array_types)))
   \<and> (well_formed ds nm ''Binary'' \<longrightarrow>
      create_string A (variable_string ds nm ''Binary'') val pb =
        Inl (RuntimeError (''The key provided ('' @ variable_string ds nm ''Binary''
                           @ '') is not a String key.'')))"
proof -
  obtain u where u: "variable_type (PStr key) = Inr u"
    using variable_type_total by blast
  have binary: "well_formed ds nm ''Binary'' \<Longrightarrow>
      variable_type (PStr (variable_string ds nm ''Binary'')) = Inr ''Binary''"
    using variable_type_variable_string [of ds nm "''Binary''" "[]" "[]"] by simp
  show ?thesis
    by (simp add: u binary create_binary_def create_binary_array_def create_key_value_def
        create_key_value_array_def create_string_def create_string_array_def
        create_tc_entity_def create_tc_entity_array_def tc_entity_array_types_def
        not_a_key_def)
qed

theorem strict_creators_type_mismatch_witness:
  "create_string example_abc ''#App:1:k!Binary'' (PStr ''v'') (example_playbook [] [] []) =
     Inl (RuntimeError ''The key provided (#App:1:k!Binary) is not a String key.'')
   \<and> create_string_array example_abc ''#App:1:k!Binary'' (PStr ''v'') (example_playbook [] [] []) =
     Inl (RuntimeError ''The key provided (#App:1:k!Binary) is not a StringArray key.'')
   \<and> create_binary_array example_abc ''#App:1:k!Binary'' (PStr ''v'') (example_playbook [] [] []) =
     Inl (RuntimeError ''The key provided (#App:1:k!Binary) is not a BinaryArray key.'')
   \<and> create_key_value example_abc ''#App:1:k!Binary'' (PStr ''v'') (example_playbook [] [] []) =
     Inl (RuntimeError ''The key provided (#App:1:k!Binary) is not a KeyValue key.'')
   \<and> create_key_value_array example_abc ''#App:1:k!Binary'' (PStr ''v'') (example_playbook [] [] []) =
     Inl (RuntimeError ''The key provided (#App:1:k!Binary) is not a KeyValueArray key.'')
   \<and> create_tc_entity example_abc ''#App:1:k!Binary'' (PStr ''v'') (example_playbook [] [] []) =
     Inl (RuntimeError ''The key provided (#App:1:k!Binary) is not a TCEntity key.'')
   \<and> create_tc_entity_array example_abc ''#App:1:k!Binary'' (PStr ''v'') (example_playbook [] [] []) =
     Inl (RuntimeError
       (''The key provided (#App:1:k!Binary) is not a [''
        @ [CHR 0x27] @ ''TCEntityArray'' @ [CHR 0x27] @ '', ''
        @ [CHR 0x27] @ ''TCEnhancedEntity'' @ [CHR 0x27] @ '', ''
        @ [CHR 0x27] @ ''TCEnhancedEntityArray'' @ [CHR 0x27] @ ''] key.''))
   \<and> create_binary example_abc ''plain'' (PStr ''v'') (example_playbook [] [] []) =
     Inl (RuntimeError ''The key provided (plain) is not a Binary key.'')"
proof -
  have t: "variable_type (PStr ''#App:1:k!Binary'') = Inr ''Binary''"
    using variable_type_variable_string [OF well_formed_k_Binary, of "[]" "[]"]
    by (simp add: variable_string_def)
  have "strip ''plain'' = ''plain''" by (simp add: strip_def py_isspace_def)
  moreover have "\<not> variable_match ''plain''"
    by (simp add: variable_match_def match_at_start_def)
  ultimately have p: "variable_type (PStr ''plain'') = Inr ''String''"
    by (simp add: variable_type_not_match)
  have declared: "create_string example_abc ''#App:1:k!Binary'' (PStr ''v'') (example_playbook [] [] []) =
     Inl (RuntimeError ''The key provided (#App:1:k!Binary) is not a String key.'')
   \<and> create_string_array example_abc ''#App:1:k!Binary'' (PStr ''v'') (example_playbook [] [] []) =
     Inl (RuntimeError ''The key provided (#App:1:k!Binary) is not a StringArray key.'')
   \<and> create_binary_array example_abc ''#App:1:k!Binary'' (PStr ''v'') (example_playbook [] [] []) =
     Inl (RuntimeError ''The key provided (#App:1:k!Binary) is not a BinaryArray key.'')
   \<and> create_key_value example_abc ''#App:1:k!Binary'' (PStr ''v'') (example_playbook [] [] []) =
     Inl (RuntimeError ''The key provided (#App:1:k!Binary) is not a KeyValue key.'')
   \<and> create_key_value_array example_abc ''#App:1:k!Binary'' (PStr ''v'') (example_playbook [] [] []) =
     Inl (RuntimeError ''The key provided (#App:1:k!Binary) is not a KeyValueArray key.'')
   \<and> create_tc_entity example_abc ''#App:1:k!Binary'' (PStr ''v'') (example_playbook [] [] []) =
     Inl (RuntimeError ''The key provided (#App:1:k!Binary) is not a TCEntity key.'')
   \<and> create_tc_entity_array example_abc ''#App:1:k!Binary'' (PStr ''v'') (example_playbook [] [] []) =
     Inl (RuntimeError
       (''The key provided (#App:1:k!Binary) is not a [''
        @ [CHR 0x27] @ ''TCEntityArray'' @ [CHR 0x27] @ '', ''
        @ [CHR 0x27] @ ''TCEnhancedEntity'' @ [CHR 0x27] @ '', ''
        @ [CHR 0x27] @ ''TCEnhancedEntityArray'' @ [CHR 0x27] @ ''] key.''))"
    using strict_creators_type_mismatch
      [where key = "''#App:1:k!Binary''" and A = example_abc and val = "PStr ''v''"
         and pb = "example_playbook [] [] []" and ds = "''1''" and nm = "''k''"]
      well_formed_k_Binary
    by (simp add: t not_a_key_def py_repr_list_def tc_entity_array_types_def variable_string_def)
  have literal: "create_binary example_abc ''plain'' (PStr ''v'') (example_playbook [] [] []) =
     Inl (RuntimeError ''The key provided (plain) is not a Binary key.'')"
    using strict_creators_type_mismatch
      [where key = "''plain''" and A = example_abc and val = "PStr ''v''"
         and pb = "example_playbook [] [] []"]
    by (simp add: p not_a_key_def)
  show ?thesis using declared literal by simp
qed

section \<open>create\<close>

lemma create_variable:
  assumes "well_formed ds nm ty" and "list_all py_isspace w" and "list_all py_isspace w'"
  shows "create A (Some (w @ variable_string ds nm ty @ w')) val pb =
     (if ty \<in> set variable_single_types
      then on_store (abc_create A (variable_string ds nm ty) val) pb
      else if ty \<in> set variable_array_types
      then on_store (abc_create_array A (variable_string ds nm ty) val) pb
      else on_store (abc_create_raw A (variable_string ds nm ty) val) pb)"
proof -
  have s: "strip (w @ variable_string ds nm ty @ w') = variable_string ds nm ty"
    using assms by (rule strip_variable_string)
  have p: "parse_variable (PStr (variable_string ds nm ty)) =
      Inr (Some \<lparr>pv_root = variable_string ds nm ty, pv_job_id = ds, pv_name = nm, pv_type = ty\<rparr>)"
    using parse_variable_variable_string [OF assms(1), of "[]" "[]"] by simp
  have s': "strip (variable_string ds nm ty) = variable_string ds nm ty"
    using strip_variable_string [OF assms(1), of "[]" "[]"] by simp
  show ?thesis by (simp add: create_def s s' p)
qed

lemma create_not_variable:
  "\<not> variable_match (strip k) \<Longrightarrow> create A (Some k) val pb = Inl TypeError"
  by (simp add: create_def strip_idem parse_variable_not_match)

text \<open>
  C3. The claim says that create never raises for a key that is not null, plain literal
  keys included. On the literal key \<^verbatim>\<open>foo\<close> parse_variable returns null and
  \<^verbatim>\<open>parsed_key['type']\<close> raises TypeError, whatever the write paths, the value and the
  state are.
\<close>

theorem create_literal_key_raises:
  "create A (Some ''foo'') val pb = Inl TypeError"
proof -
  have "strip ''foo'' = ''foo''" by (simp add: strip_def py_isspace_def)
  moreover have "\<not> variable_match ''foo''"
    by (simp add: variable_match_def match_at_start_def)
  ultimately show ?thesis by (simp add: create_not_variable)
qed

section \<open>create_output\<close>

lemma playbook_init_no_outputs:
  "ovs = None \<or> ovs = Some [] \<Longrightarrow>
   playbook_init store ovs =
     Inr \<lparr>key_value_store = store, output_variables_by_type = [],
          output_variables_by_name = [], output_data = [], list_objects = []\<rparr>"
  by (auto simp: playbook_init_def)

text \<open>
  C1. create_output returns null and leaves the Playbook as it is when nothing was
  requested (the list of requested outputs is empty or absent, so the index by type is
  empty), when the key is null or when the value is null. Otherwise the key is stripped
  and \<^verbatim>\<open><key>-<type>\<close> is looked up in the index by type: an entry there wins; without
  one, an entry of the index by name under the stripped key is taken only when the caller
  gave no type; in every other case the call returns null and leaves the Playbook as it
  is. On a match the call is create on the requested variable string of the entry, which
  for a well-formed variable goes to the write path of its type under that string.
\<close>

theorem create_output_gate:
  "(output_variables_by_type pb = [] \<or> key = None \<or> val = PNone \<longrightarrow>
      create_output A key val vtype pb = Inr (PNone, pb))
   \<and> (ovs = None \<or> ovs = Some [] \<longrightarrow>
        (\<exists>pb0. playbook_init store ovs = Inr pb0
           \<and> create_output A key val vtype pb0 = Inr (PNone, pb0)))
   \<and> (output_variables_by_type pb \<noteq> [] \<and> val \<noteq> PNone \<longrightarrow>
        (map_of (output_variables_by_type pb) (strip k @ ''-'' @ format_type vtype) = Some v \<longrightarrow>
           create_output A (Some k) val vtype pb = create A (Some v) val pb)
        \<and> (map_of (output_variables_by_type pb) (strip k @ ''-'' @ format_type vtype) = None
           \<and> vtype = None \<and> map_of (output_variables_by_name pb) (strip k) = Some v \<longrightarrow>
           create_output A (Some k) val vtype pb = create A (Some v) val pb)
        \<and> (map_of (output_variables_by_type pb) (strip k @ ''-'' @ format_type vtype) = None
           \<and> (vtype \<noteq> None \<or> map_of (output_variables_by_name pb) (strip k) = None) \<longrightarrow>
           create_output A (Some k) val vtype pb = Inr (PNone, pb)))
   \<and> (well_formed ds nm ty \<longrightarrow>
        create A (Some (variable_string ds nm ty)) val pb =
          (if ty \<in> set variable_single_types
           then on_store (abc_create A (variable_string ds nm ty) val) pb
           else if ty \<in> set variable_array_types
           then on_store (abc_create_array A (variable_string ds nm ty) val) pb
           else on_store (abc_create_raw A (variable_string ds nm ty) val) pb))"
proof (intro conjI impI)
  assume "output_variables_by_type pb = [] \<or> key = None \<or> val = PNone"
  then show "create_output A key val vtype pb = Inr (PNone, pb)"
    by (auto simp: create_output_def split: option.splits)
next
  assume "ovs = None \<or> ovs = Some []"
  then have "playbook_init store ovs =
     Inr \<lparr>key_value_store = store, output_variables_by_type = [],
          output_variables_by_name = [], output_data = [], list_objects = []\<rparr>"
    by (rule playbook_init_no_outputs)
  then show "\<exists>pb0. playbook_init store ovs = Inr pb0
           \<and> create_output A key val vtype pb0 = Inr (PNone, pb0)"
    by (simp add: create_output_def)
next
  assume h: "output_variables_by_type pb \<noteq> [] \<and> val \<noteq> PNone"
    and "map_of (output_variables_by_type pb) (strip k @ ''-'' @ format_type vtype) = Some v"
  then show "create_output A (Some k) val vtype pb = create A (Some v) val pb"
    by (simp add: create_output_def Let_def)
next
  assume h: "output_variables_by_type pb \<noteq> [] \<and> val \<noteq> PNone"
    and "map_of (output_variables_by_type pb) (strip k @ ''-'' @ format_type vtype) = None
           \<and> vtype = None \<and> map_of (output_variables_by_name pb) (strip k) = Some v"
  then show "create_output A (Some k) val vtype pb = create A (Some v) val pb"
    by (auto simp: create_output_def Let_def)
next
  assume h: "output_variables_by_type pb \<noteq> [] \<and> val \<noteq> PNone"
    and "map_of (output_variables_by_type pb) (strip k @ ''-'' @ format_type vtype) = None
           \<and> (vtype \<noteq> None \<or> map_of (output_variables_by_name pb) (strip k) = None)"
  then show "create_output A (Some k) val vtype pb = Inr (PNone, pb)"
    by (auto simp: create_output_def Let_def)
next
  assume "well_formed ds nm ty"
  then show "create A (Some (variable_string ds nm ty)) val pb =
          (if ty \<in> set variable_single_types
           then on_store (abc_create A (variable_string ds nm ty) val) pb
           else if ty \<in> set variable_array_types
           then on_store (abc_create_array A (variable_string ds nm ty) val) pb
           else on_store (abc_create_raw A (variable_string ds nm ty) val) pb)"
    using create_variable [of ds nm ty "[]" "[]" A val pb] by simp
qed


lemma well_formed_x_String: "well_formed ''1'' ''x'' ''String''"
  by (simp add: well_formed_def is_digit_def is_name_char_def is_word_char_def)

lemma strip_x: "strip '' x '' = ''x''"
  by (simp add: strip_def py_isspace_def)

theorem create_output_gate_witness:
  "create_output example_abc (Some '' x '') (PStr ''v'') (Some ''String'')
       (example_playbook [(''x-String'', ''#App:1:x!String'')] [(''x'', ''#App:1:x!String'')] []) =
     Inr (PStr ''OK'',
          (example_playbook [(''x-String'', ''#App:1:x!String'')] [(''x'', ''#App:1:x!String'')] [])
            \<lparr>key_value_store := [(''#App:1:x!String'', PStr ''v'')]\<rparr>)
   \<and> create_output example_abc (Some '' x '') (PStr ''v'') None
       (example_playbook [(''x-String'', ''#App:1:x!String'')] [(''x'', ''#App:1:x!String'')] []) =
     Inr (PStr ''OK'',
          (example_playbook [(''x-String'', ''#App:1:x!String'')] [(''x'', ''#App:1:x!String'')] [])
            \<lparr>key_value_store := [(''#App:1:x!String'', PStr ''v'')]\<rparr>)
   \<and> create_output example_abc (Some '' x '') (PStr ''v'') (Some ''Binary'')
       (example_playbook [(''x-String'', ''#App:1:x!String'')] [(''x'', ''#App:1:x!String'')] []) =
     Inr (PNone,
          example_playbook [(''x-String'', ''#App:1:x!String'')] [(''x'', ''#App:1:x!String'')] [])
   \<and> create_output example_abc (Some '' x '') PNone (Some ''String'')
       (example_playbook [(''x-String'', ''#App:1:x!String'')] [(''x'', ''#App:1:x!String'')] []) =
     Inr (PNone,
          example_playbook [(''x-String'', ''#App:1:x!String'')] [(''x'', ''#App:1:x!String'')] [])
   \<and> create_output example_abc (Some '' x '') (PStr ''v'') (Some ''String'')
       (example_playbook [] [] []) = Inr (PNone, example_playbook [] [] [])
   \<and> playbook_init [] None = Inr (example_playbook [] [] [])
   \<and> playbook_init [] (Some []) = Inr (example_playbook [] [] [])"
proof -
  let ?pb = "example_playbook [(''x-String'', ''#App:1:x!String'')] [(''x'', ''#App:1:x!String'')] []"
  let ?w = "Inr (PStr ''OK'', ?pb\<lparr>key_value_store := [(''#App:1:x!String'', PStr ''v'')]\<rparr>)"
  have c: "create example_abc (Some ''#App:1:x!String'') (PStr ''v'') ?pb = ?w"
    using create_output_gate
      [of ?pb None "PStr ''v''" example_abc None None "[]" "'' x ''" "''#App:1:x!String''"
          "''1''" "''x''" "''String''"]
      well_formed_x_String
    by (simp add: variable_string_def variable_single_types_def on_store_def example_abc_def
        store_put_def snapshot_def example_playbook_def)
  have typed: "create_output example_abc (Some '' x '') (PStr ''v'') (Some ''String'') ?pb = ?w"
    using create_output_gate
      [of ?pb None "PStr ''v''" example_abc "Some ''String''" None "[]" "'' x ''"
          "''#App:1:x!String''" "''1''" "''x''" "''String''"] c
    by (simp add: strip_x format_type_def example_playbook_def)
  have untyped: "create_output example_abc (Some '' x '') (PStr ''v'') None ?pb = ?w"
    using create_output_gate
      [of ?pb None "PStr ''v''" example_abc None None "[]" "'' x ''"
          "''#App:1:x!String''" "''1''" "''x''" "''String''"] c
    by (simp add: strip_x format_type_def example_playbook_def)
  have other: "create_output example_abc (Some '' x '') (PStr ''v'') (Some ''Binary'') ?pb
      = Inr (PNone, ?pb)"
    using create_output_gate
      [of ?pb None "PStr ''v''" example_abc "Some ''Binary''" None "[]" "'' x ''"
          "''#App:1:x!String''" "''1''" "''x''" "''String''"]
    by (simp add: strip_x format_type_def example_playbook_def)
  have null: "create_output example_abc (Some '' x '') PNone (Some ''String'') ?pb
      = Inr (PNone, ?pb)"
    using create_output_gate
      [of ?pb "Some '' x ''" PNone example_abc "Some ''String''" None "[]" "'' x ''"
          "''#App:1:x!String''" "''1''" "''x''" "''String''"]
    by simp
  have none: "create_output example_abc (Some '' x '') (PStr ''v'') (Some ''String'')
       (example_playbook [] [] []) = Inr (PNone, example_playbook [] [] [])"
    using create_output_gate
      [of "example_playbook [] [] []" "Some '' x ''" "PStr ''v''" example_abc "Some ''String''"
          None "[]" "'' x ''" "''#App:1:x!String''" "''1''" "''x''" "''String''"]
    by (simp add: example_playbook_def)
  have absent: "playbook_init [] None = Inr (example_playbook [] [] [])"
    using create_output_gate [where ovs = None and store = "[] :: (string \<times> pyval) list"]
    by (auto simp: example_playbook_def playbook_init_def)
  have empty: "playbook_init [] (Some []) = Inr (example_playbook [] [] [])"
    using create_output_gate [where ovs = "Some []" and store = "[] :: (string \<times> pyval) list"]
    by (auto simp: example_playbook_def playbook_init_def)
  show ?thesis using typed untyped other null none absent empty by simp
qed

section \<open>Dictionaries\<close>

lemma map_of_dict_set: "map_of (dict_set d k v) = (map_of d)(k \<mapsto> v)"
  by (induction d) (auto simp: fun_eq_iff)

lemma keys_dict_set:
  "map fst (dict_set d k v) = (if k \<in> set (map fst d) then map fst d else map fst d @ [k])"
  by (induction d) (fastforce simp: image_iff)+

lemma map_of_dict_setdefault:
  "map_of (dict_setdefault d k v) =
     (map_of d)(k \<mapsto> (case map_of d k of None \<Rightarrow> v | Some r \<Rightarrow> r))"
  by (auto simp: dict_setdefault_def fun_eq_iff map_add_def split: option.splits)

lemma keys_dict_setdefault:
  "map fst (dict_setdefault d k v) =
     (if k \<in> set (map fst d) then map fst d else map fst d @ [k])"
  by (force simp: dict_setdefault_def map_of_eq_None_iff image_iff split: option.splits
      dest!: map_of_SomeD)

lemma dict_setdefault_absent:
  "map_of d k = None \<Longrightarrow> dict_setdefault d k v = d @ [(k, v)]"
  by (simp add: dict_setdefault_def)

lemma dict_setdefault_present:
  "map_of d k = Some r \<Longrightarrow> dict_setdefault d k v = d"
  by (simp add: dict_setdefault_def)

lemma keys_setdefault_then_set:
  "map fst (dict_set (dict_setdefault d k v) k r) = map fst (dict_setdefault d k v)"
  by (simp add: keys_dict_set keys_dict_setdefault)

section \<open>add_output\<close>

lemma add_output_skip:
  assumes "val = PNone" and "vtype \<notin> set variable_array_types \<or> \<not> append_array"
  shows "add_output key val vtype append_array pb =
     Inr (pb\<lparr>output_data := dict_setdefault (output_data pb) (key @ ''-'' @ vtype) empty_record\<rparr>)"
  using assms by (auto simp: add_output_def Let_def)

text \<open>Appending when the record holds no value yet, or a list that only it holds.\<close>

lemma add_output_append:
  assumes "vtype \<in> set variable_array_types" and "append_array"
    and "map_of (output_data pb) (key @ ''-'' @ vtype) = None \<and> r = empty_record \<and> xs = []
         \<or> map_of (output_data pb) (key @ ''-'' @ vtype) = Some r
            \<and> (rec_value r = None \<and> xs = [] \<or> rec_value r = Some (PList xs))"
  shows "add_output key val vtype append_array pb =
     Inr (pb\<lparr>output_data :=
            dict_set (dict_setdefault (output_data pb) (key @ ''-'' @ vtype) empty_record)
              (key @ ''-'' @ vtype)
              \<lparr>rec_key = setdefault_field (rec_key r) key,
               rec_type = setdefault_field (rec_type r) vtype,
               rec_value = Some (PList (xs @ added_items (list_objects pb) val))\<rparr>\<rparr>)"
  using assms
  by (cases r)
    (auto simp: add_output_def Let_def map_of_dict_setdefault setdefault_field_def
      empty_record_def)

text \<open>
  Appending when the record holds a shared list object: the object changes in place, the
  record keeps its reference.
\<close>

lemma add_output_append_shared:
  assumes "vtype \<in> set variable_array_types" and "append_array"
    and "map_of (output_data pb) (key @ ''-'' @ vtype) = Some r"
    and "rec_value r = Some (PRef a)"
  shows "add_output key val vtype append_array pb =
     Inr (pb\<lparr>output_data :=
            dict_set (dict_setdefault (output_data pb) (key @ ''-'' @ vtype) empty_record)
              (key @ ''-'' @ vtype)
              (r\<lparr>rec_key := setdefault_field (rec_key r) key,
                 rec_type := setdefault_field (rec_type r) vtype\<rparr>),
            list_objects :=
              set_object (list_objects pb) a
                (object_at (list_objects pb) a @ added_items (list_objects pb) val)\<rparr>)"
  using assms
  by (auto simp: add_output_def Let_def map_of_dict_setdefault setdefault_field_def)

text \<open>
  Appending when the record holds a value that is not a list: the call raises, after the
  index, the key and the type have been entered.
\<close>

lemma add_output_append_not_list:
  assumes "vtype \<in> set variable_array_types" and "append_array"
    and "map_of (output_data pb) (key @ ''-'' @ vtype) = Some r"
    and "rec_value r = Some v" and "\<not> is_list v"
  shows "add_output key val vtype append_array pb =
     Inl (AttributeError,
          pb\<lparr>output_data :=
               dict_set (dict_setdefault (output_data pb) (key @ ''-'' @ vtype) empty_record)
                 (key @ ''-'' @ vtype)
                 (r\<lparr>rec_key := setdefault_field (rec_key r) key,
                    rec_type := setdefault_field (rec_type r) vtype\<rparr>)\<rparr>)"
  using assms
  by (cases v)
    (auto simp: add_output_def Let_def map_of_dict_setdefault setdefault_field_def is_list_def)

lemma add_output_overwrite:
  assumes "val \<noteq> PNone" and "vtype \<notin> set variable_array_types \<or> \<not> append_array"
  shows "add_output key val vtype append_array pb =
     Inr (pb\<lparr>output_data :=
            dict_set (dict_setdefault (output_data pb) (key @ ''-'' @ vtype) empty_record)
              (key @ ''-'' @ vtype)
              \<lparr>rec_key = Some key, rec_type = Some vtype, rec_value = Some val\<rparr>\<rparr>)"
  using assms by (auto simp: add_output_def Let_def)

text \<open>The buffer after a call, returned or raised, is the buffer with the index entered
  and at most the record under the index changed.\<close>

lemma add_output_buffer_after:
  "output_data (state_after (add_output key val vtype append_array pb)) =
     dict_setdefault (output_data pb) (key @ ''-'' @ vtype) empty_record
   \<or> (\<exists>r. output_data (state_after (add_output key val vtype append_array pb)) =
          dict_set (dict_setdefault (output_data pb) (key @ ''-'' @ vtype) empty_record)
            (key @ ''-'' @ vtype) r)"
  by (auto simp: add_output_def state_after_def Let_def
      split: if_splits option.splits pyval.splits)

lemma add_output_keys_after:
  "map fst (output_data (state_after (add_output key val vtype append_array pb))) =
     (if key @ ''-'' @ vtype \<in> set (map fst (output_data pb)) then map fst (output_data pb)
      else map fst (output_data pb) @ [key @ ''-'' @ vtype])"
proof -
  let ?i = "key @ ''-'' @ vtype"
  let ?od = "dict_setdefault (output_data pb) ?i empty_record"
  have "map fst (output_data (state_after (add_output key val vtype append_array pb)))
      = map fst ?od"
    using add_output_buffer_after [of key val vtype append_array pb]
    by (auto simp: keys_setdefault_then_set)
  then show ?thesis by (simp add: keys_dict_setdefault)
qed

lemma add_output_keys:
  assumes "add_output key val vtype append_array pb = Inr pb'"
  shows "map fst (output_data pb') =
     (if key @ ''-'' @ vtype \<in> set (map fst (output_data pb)) then map fst (output_data pb)
      else map fst (output_data pb) @ [key @ ''-'' @ vtype])"
  using add_output_keys_after [of key val vtype append_array pb] assms
  by (simp add: state_after_def)

text \<open>
  What a call leaves alone: the store, the two indices, the record under every other
  index, and every list object but the one the record under the index holds.
\<close>

lemma object_at_set_object:
  "object_at (set_object h a xs) b = (if b = a \<and> a < length h then xs else object_at h b)"
  by (auto simp: object_at_def set_object_def)

lemma add_output_frame:
  assumes "state_after (add_output key val vtype append_array pb) = pb'"
  shows "key_value_store pb' = key_value_store pb
     \<and> output_variables_by_type pb' = output_variables_by_type pb
     \<and> output_variables_by_name pb' = output_variables_by_name pb
     \<and> (\<forall>j. j \<noteq> key @ ''-'' @ vtype \<longrightarrow> map_of (output_data pb') j = map_of (output_data pb) j)
     \<and> (\<forall>b. (\<forall>r. map_of (output_data pb) (key @ ''-'' @ vtype) = Some r
                    \<longrightarrow> rec_value r \<noteq> Some (PRef b))
            \<longrightarrow> object_at (list_objects pb') b = object_at (list_objects pb) b)"
  using assms
  by (auto simp: add_output_def state_after_def Let_def map_of_dict_set map_of_dict_setdefault
      object_at_set_object setdefault_field_def empty_record_def
      split: if_splits option.splits pyval.splits)

lemma StringArray_array: "''StringArray'' \<in> set variable_array_types"
  by (simp add: variable_array_types_def)

lemma String_not_array: "''String'' \<notin> set variable_array_types"
  by (simp add: variable_array_types_def)

lemma well_formed_x_StringArray: "well_formed ''1'' ''x'' ''StringArray''"
  by (simp add: well_formed_def is_digit_def is_name_char_def is_word_char_def)

lemma create_x_StringArray:
  "create A (Some ''#App:1:x!StringArray'') val pb =
     on_store (abc_create_array A ''#App:1:x!StringArray'' val) pb"
  using create_variable [OF well_formed_x_StringArray, of "[]" "[]" A val pb]
  by (simp add: variable_string_def variable_single_types_def variable_array_types_def)

lemma strip_letter_x: "strip ''x'' = ''x''"
  by (simp add: strip_def py_isspace_def)

lemma add_then_write_example:
  assumes "output_data pb = []"
    and "output_variables_by_type pb = [(''x-StringArray'', ''#App:1:x!StringArray'')]"
  shows "\<exists>pb1 pb2.
       add_output ''x'' (PStr ''a'') ''StringArray'' True pb = Inr pb1
     \<and> add_output ''x'' (PStr ''b'') ''StringArray'' True pb1 = Inr pb2
     \<and> output_data pb2 =
         [(''x-StringArray'',
           \<lparr>rec_key = Some ''x'', rec_type = Some ''StringArray'',
            rec_value = Some (PList [PStr ''a'', PStr ''b''])\<rparr>)]
     \<and> write_output A pb2 =
         (case abc_create_array A ''#App:1:x!StringArray'' (PList [PStr ''a'', PStr ''b''])
                 (list_objects pb) (key_value_store pb) of
            Inl e \<Rightarrow> Inl e
          | Inr (ack, s') \<Rightarrow> Inr (pb2\<lparr>key_value_store := s'\<rparr>))"
proof -
  let ?r1 = "\<lparr>rec_key = Some ''x'', rec_type = Some ''StringArray'',
              rec_value = Some (PList [PStr ''a''])\<rparr>"
  let ?r2 = "\<lparr>rec_key = Some ''x'', rec_type = Some ''StringArray'',
              rec_value = Some (PList [PStr ''a'', PStr ''b''])\<rparr>"
  let ?pb1 = "pb\<lparr>output_data := [(''x-StringArray'', ?r1)]\<rparr>"
  let ?pb2 = "pb\<lparr>output_data := [(''x-StringArray'', ?r2)]\<rparr>"
  have 1: "add_output ''x'' (PStr ''a'') ''StringArray'' True pb = Inr ?pb1"
    using add_output_append [of "''StringArray''" True pb "''x''" empty_record "[]" "PStr ''a''"]
      StringArray_array assms(1)
    by (simp add: dict_setdefault_def empty_record_def setdefault_field_def added_items_def)
  have 2: "add_output ''x'' (PStr ''b'') ''StringArray'' True ?pb1 = Inr ?pb2"
    using add_output_append [of "''StringArray''" True ?pb1 "''x''" ?r1 "[PStr ''a'']" "PStr ''b''"]
      StringArray_array
    by (simp add: dict_setdefault_def setdefault_field_def added_items_def)
  have 3: "write_output A ?pb2 =
         (case abc_create_array A ''#App:1:x!StringArray'' (PList [PStr ''a'', PStr ''b''])
                 (list_objects pb) (key_value_store pb) of
            Inl e \<Rightarrow> Inl e
          | Inr (ack, s') \<Rightarrow> Inr (?pb2\<lparr>key_value_store := s'\<rparr>))"
    using assms(2)
    by (simp add: write_output_def get_value_def create_output_def strip_letter_x format_type_def
        create_x_StringArray on_store_def split: sum.splits prod.splits)
  show ?thesis using 1 2 3 by (intro exI [of _ ?pb1] exI [of _ ?pb2]) simp
qed


text \<open>
  A list object that two records hold: appending under one index changes what the other
  index holds too, and what the caller sees.
\<close>

lemma add_output_shared_example:
  "add_output ''a'' (PStr ''x'') ''StringArray'' True
     ((example_playbook [] []
         [(''a-StringArray'',
           \<lparr>rec_key = Some ''a'', rec_type = Some ''StringArray'', rec_value = Some (PRef 0)\<rparr>),
          (''b-StringArray'',
           \<lparr>rec_key = Some ''b'', rec_type = Some ''StringArray'', rec_value = Some (PRef 0)\<rparr>)])
        \<lparr>list_objects := [[PStr ''l'']]\<rparr>)
   = Inr ((example_playbook [] []
         [(''a-StringArray'',
           \<lparr>rec_key = Some ''a'', rec_type = Some ''StringArray'', rec_value = Some (PRef 0)\<rparr>),
          (''b-StringArray'',
           \<lparr>rec_key = Some ''b'', rec_type = Some ''StringArray'', rec_value = Some (PRef 0)\<rparr>)])
        \<lparr>list_objects := [[PStr ''l'', PStr ''x'']]\<rparr>)
   \<and> buffered_items
        ((example_playbook [] []
         [(''a-StringArray'',
           \<lparr>rec_key = Some ''a'', rec_type = Some ''StringArray'', rec_value = Some (PRef 0)\<rparr>),
          (''b-StringArray'',
           \<lparr>rec_key = Some ''b'', rec_type = Some ''StringArray'', rec_value = Some (PRef 0)\<rparr>)])
        \<lparr>list_objects := [[PStr ''l'', PStr ''x'']]\<rparr>) ''b-StringArray''
      = Some [PStr ''l'', PStr ''x'']"
  by (simp add: add_output_def Let_def dict_setdefault_def example_playbook_def
      StringArray_array setdefault_field_def added_items_def object_at_def set_object_def
      buffered_items_def)

text \<open>
  C4. The claim says that with an array type and \<^verbatim>\<open>append_array\<close> true the buffered
  record is extended, for every sequence of calls. After
  add_output(x, a, StringArray, append_array=False) the record under \<^verbatim>\<open>x-StringArray\<close>
  holds the string a, and the appending call add_output(x, b, StringArray) then raises
  AttributeError on \<^verbatim>\<open>setdefault('value', []).append\<close> and extends nothing: the buffer is
  as it was before the call.
\<close>

theorem add_output_append_to_scalar_raises:
  "add_output ''x'' (PStr ''a'') ''StringArray'' False (example_playbook [] [] []) =
     Inr (example_playbook [] []
            [(''x-StringArray'',
              \<lparr>rec_key = Some ''x'', rec_type = Some ''StringArray'',
               rec_value = Some (PStr ''a'')\<rparr>)])
   \<and> add_output ''x'' (PStr ''b'') ''StringArray'' True
       (example_playbook [] []
          [(''x-StringArray'',
            \<lparr>rec_key = Some ''x'', rec_type = Some ''StringArray'',
             rec_value = Some (PStr ''a'')\<rparr>)]) =
     Inl (AttributeError,
          example_playbook [] []
            [(''x-StringArray'',
              \<lparr>rec_key = Some ''x'', rec_type = Some ''StringArray'',
               rec_value = Some (PStr ''a'')\<rparr>)])"
proof -
  have "add_output ''x'' (PStr ''a'') ''StringArray'' False (example_playbook [] [] []) =
     Inr (example_playbook [] []
            [(''x-StringArray'',
              \<lparr>rec_key = Some ''x'', rec_type = Some ''StringArray'',
               rec_value = Some (PStr ''a'')\<rparr>)])"
    by (simp add: add_output_overwrite example_playbook_def dict_setdefault_def)
  moreover have "add_output ''x'' (PStr ''b'') ''StringArray'' True
       (example_playbook [] []
          [(''x-StringArray'',
            \<lparr>rec_key = Some ''x'', rec_type = Some ''StringArray'',
             rec_value = Some (PStr ''a'')\<rparr>)]) =
     Inl (AttributeError,
          example_playbook [] []
            [(''x-StringArray'',
              \<lparr>rec_key = Some ''x'', rec_type = Some ''StringArray'',
               rec_value = Some (PStr ''a'')\<rparr>)])"
    by (simp add: add_output_def Let_def dict_setdefault_def example_playbook_def
        StringArray_array setdefault_field_def)
  ultimately show ?thesis by simp
qed

section \<open>write_output\<close>

lemma on_store_frame:
  "on_store w pb = Inr (r, pb') \<Longrightarrow>
   output_data pb' = output_data pb
   \<and> output_variables_by_type pb' = output_variables_by_type pb
   \<and> output_variables_by_name pb' = output_variables_by_name pb
   \<and> list_objects pb' = list_objects pb"
  by (auto simp: on_store_def split: sum.splits prod.splits)

lemma create_frame:
  "create A key val pb = Inr (r, pb') \<Longrightarrow>
   output_data pb' = output_data pb
   \<and> output_variables_by_type pb' = output_variables_by_type pb
   \<and> output_variables_by_name pb' = output_variables_by_name pb
   \<and> list_objects pb' = list_objects pb"
  by (auto simp: create_def Let_def split: option.splits sum.splits if_splits dest: on_store_frame)

lemma create_output_frame:
  "create_output A key val vtype pb = Inr (r, pb') \<Longrightarrow>
   output_data pb' = output_data pb
   \<and> output_variables_by_type pb' = output_variables_by_type pb
   \<and> output_variables_by_name pb' = output_variables_by_name pb
   \<and> list_objects pb' = list_objects pb"
  unfolding create_output_def Let_def
  by (auto split: option.splits if_splits dest: create_frame)

lemma write_output_loop_frame:
  "write_output_loop A ds pb = Inr pb' \<Longrightarrow>
   output_data pb' = output_data pb
   \<and> output_variables_by_type pb' = output_variables_by_type pb
   \<and> output_variables_by_name pb' = output_variables_by_name pb
   \<and> list_objects pb' = list_objects pb"
proof (induction ds arbitrary: pb)
  case Nil
  then show ?case by simp
next
  case (Cons d ds)
  then obtain r pb1 where
    c: "create_output A (rec_key d) (get_value d) (rec_type d) pb = Inr (r, pb1)"
    and l: "write_output_loop A ds pb1 = Inr pb'"
    by (auto split: sum.splits prod.splits)
  show ?case using create_output_frame [OF c] Cons.IH [OF l] by simp
qed

lemma write_output_loop_append:
  "write_output_loop A (xs @ ys) pb =
     (case write_output_loop A xs pb of
        Inl e \<Rightarrow> Inl e
      | Inr pb1 \<Rightarrow> write_output_loop A ys pb1)"
  by (induction xs arbitrary: pb) (auto split: sum.splits prod.splits)

lemma write_output_loop_single:
  "write_output_loop A [d] pb =
     (case create_output A (rec_key d) (get_value d) (rec_type d) pb of
        Inl e \<Rightarrow> Inl e
      | Inr (r, pb1) \<Rightarrow> Inr pb1)"
  by (simp split: sum.splits prod.splits)

lemma create_example_abc:
  assumes "well_formed ds nm ty"
  shows "create example_abc (Some (variable_string ds nm ty)) val pb =
     Inr (PStr ''OK'',
          pb\<lparr>key_value_store :=
               key_value_store pb @ [(variable_string ds nm ty, snapshot (list_objects pb) val)]\<rparr>)"
  using create_variable [OF assms, of "[]" "[]" example_abc val pb]
  by (simp add: on_store_def example_abc_def store_put_def)

lemma well_formed_y_String: "well_formed ''1'' ''y'' ''String''"
  by (simp add: well_formed_def is_digit_def is_name_char_def is_word_char_def)

lemma strip_letter_y: "strip ''y'' = ''y''"
  by (simp add: strip_def py_isspace_def)

text \<open>
  C5. write_output goes through the records of the buffer in the order of the buffer,
  which is the order of insertion (add_output puts a new index last and leaves an old
  one in its place), and calls create_output with the key, value and type of each record,
  once; an exception of a call ends the loop. When it returns, the buffer and the two
  indices are as they were, and so is every list object, so a second call goes through
  exactly the same records.
\<close>

theorem write_output_flush:
  "write_output A pb = write_output_loop A (map snd (output_data pb)) pb
   \<and> write_output_loop A [] pb = Inr pb
   \<and> write_output_loop A [d] pb =
       (case create_output A (rec_key d) (get_value d) (rec_type d) pb of
          Inl e \<Rightarrow> Inl e
        | Inr (r, pb1) \<Rightarrow> Inr pb1)
   \<and> write_output_loop A (xs @ ys) pb =
       (case write_output_loop A xs pb of
          Inl e \<Rightarrow> Inl e
        | Inr pb1 \<Rightarrow> write_output_loop A ys pb1)
   \<and> (write_output A pb = Inr pb' \<longrightarrow>
        output_data pb' = output_data pb
        \<and> output_variables_by_type pb' = output_variables_by_type pb
        \<and> output_variables_by_name pb' = output_variables_by_name pb
        \<and> list_objects pb' = list_objects pb
        \<and> write_output A pb' = write_output_loop A (map snd (output_data pb)) pb')
   \<and> (add_output key val vtype append_array pb = Inr pbr \<longrightarrow>
        map fst (output_data pbr) =
          (if key @ ''-'' @ vtype \<in> set (map fst (output_data pb)) then map fst (output_data pb)
           else map fst (output_data pb) @ [key @ ''-'' @ vtype]))"
proof (intro conjI impI)
  show "write_output A pb = write_output_loop A (map snd (output_data pb)) pb"
    by (simp add: write_output_def)
  show "write_output_loop A [] pb = Inr pb" by simp
  show "write_output_loop A [d] pb =
       (case create_output A (rec_key d) (get_value d) (rec_type d) pb of
          Inl e \<Rightarrow> Inl e
        | Inr (r, pb1) \<Rightarrow> Inr pb1)"
    by (rule write_output_loop_single)
  show "write_output_loop A (xs @ ys) pb =
       (case write_output_loop A xs pb of
          Inl e \<Rightarrow> Inl e
        | Inr pb1 \<Rightarrow> write_output_loop A ys pb1)"
    by (rule write_output_loop_append)
next
  assume w: "write_output A pb = Inr pb'"
  then have f: "output_data pb' = output_data pb
        \<and> output_variables_by_type pb' = output_variables_by_type pb
        \<and> output_variables_by_name pb' = output_variables_by_name pb
        \<and> list_objects pb' = list_objects pb"
    unfolding write_output_def by (rule write_output_loop_frame)
  from f show "output_data pb' = output_data pb" by simp
  from f show "output_variables_by_type pb' = output_variables_by_type pb" by simp
  from f show "output_variables_by_name pb' = output_variables_by_name pb" by simp
  from f show "list_objects pb' = list_objects pb" by simp
  from f show "write_output A pb' = write_output_loop A (map snd (output_data pb)) pb'"
    by (simp add: write_output_def)
next
  assume "add_output key val vtype append_array pb = Inr pbr"
  then show "map fst (output_data pbr) =
          (if key @ ''-'' @ vtype \<in> set (map fst (output_data pb)) then map fst (output_data pb)
           else map fst (output_data pb) @ [key @ ''-'' @ vtype])"
    by (rule add_output_keys)
qed

lemma create_output_example_typed:
  assumes "well_formed ds nm ty"
    and "map_of (output_variables_by_type pb) (k @ ''-'' @ t) = Some (variable_string ds nm ty)"
    and "strip k = k" and "val \<noteq> PNone"
  shows "create_output example_abc (Some k) val (Some t) pb =
     Inr (PStr ''OK'',
          pb\<lparr>key_value_store :=
               key_value_store pb @ [(variable_string ds nm ty, snapshot (list_objects pb) val)]\<rparr>)"
proof -
  have "output_variables_by_type pb \<noteq> []" using assms(2) by auto
  then show ?thesis
    using assms by (simp add: create_output_def format_type_def create_example_abc)
qed

theorem write_output_flush_witness:
  "write_output example_abc
     (example_playbook [(''x-String'', ''#App:1:x!String''), (''y-String'', ''#App:1:y!String'')] []
        [(''x-String'', \<lparr>rec_key = Some ''x'', rec_type = Some ''String'', rec_value = Some (PStr ''a'')\<rparr>),
         (''y-String'', \<lparr>rec_key = Some ''y'', rec_type = Some ''String'', rec_value = Some (PStr ''b'')\<rparr>)])
   = Inr ((example_playbook [(''x-String'', ''#App:1:x!String''), (''y-String'', ''#App:1:y!String'')] []
        [(''x-String'', \<lparr>rec_key = Some ''x'', rec_type = Some ''String'', rec_value = Some (PStr ''a'')\<rparr>),
         (''y-String'', \<lparr>rec_key = Some ''y'', rec_type = Some ''String'', rec_value = Some (PStr ''b'')\<rparr>)])
        \<lparr>key_value_store := [(''#App:1:x!String'', PStr ''a''), (''#App:1:y!String'', PStr ''b'')]\<rparr>)
   \<and> write_output example_abc
     ((example_playbook [(''x-String'', ''#App:1:x!String''), (''y-String'', ''#App:1:y!String'')] []
        [(''x-String'', \<lparr>rec_key = Some ''x'', rec_type = Some ''String'', rec_value = Some (PStr ''a'')\<rparr>),
         (''y-String'', \<lparr>rec_key = Some ''y'', rec_type = Some ''String'', rec_value = Some (PStr ''b'')\<rparr>)])
        \<lparr>key_value_store := [(''#App:1:x!String'', PStr ''a''), (''#App:1:y!String'', PStr ''b'')]\<rparr>)
   = Inr ((example_playbook [(''x-String'', ''#App:1:x!String''), (''y-String'', ''#App:1:y!String'')] []
        [(''x-String'', \<lparr>rec_key = Some ''x'', rec_type = Some ''String'', rec_value = Some (PStr ''a'')\<rparr>),
         (''y-String'', \<lparr>rec_key = Some ''y'', rec_type = Some ''String'', rec_value = Some (PStr ''b'')\<rparr>)])
        \<lparr>key_value_store := [(''#App:1:x!String'', PStr ''a''), (''#App:1:y!String'', PStr ''b''),
                             (''#App:1:x!String'', PStr ''a''), (''#App:1:y!String'', PStr ''b'')]\<rparr>)
   \<and> add_output ''y'' (PStr ''b'') ''String'' True
       (example_playbook [] []
          [(''x-String'', \<lparr>rec_key = Some ''x'', rec_type = Some ''String'', rec_value = Some (PStr ''a'')\<rparr>)])
     = Inr (example_playbook [] []
          [(''x-String'', \<lparr>rec_key = Some ''x'', rec_type = Some ''String'', rec_value = Some (PStr ''a'')\<rparr>),
           (''y-String'', \<lparr>rec_key = Some ''y'', rec_type = Some ''String'', rec_value = Some (PStr ''b'')\<rparr>)])
   \<and> map fst (output_data (example_playbook [] []
          [(''x-String'', \<lparr>rec_key = Some ''x'', rec_type = Some ''String'', rec_value = Some (PStr ''a'')\<rparr>),
           (''y-String'', \<lparr>rec_key = Some ''y'', rec_type = Some ''String'', rec_value = Some (PStr ''b'')\<rparr>)]))
     = [''x-String'', ''y-String'']"
proof -
  let ?rx = "\<lparr>rec_key = Some ''x'', rec_type = Some ''String'', rec_value = Some (PStr ''a'')\<rparr>"
  let ?ry = "\<lparr>rec_key = Some ''y'', rec_type = Some ''String'', rec_value = Some (PStr ''b'')\<rparr>"
  let ?P = "example_playbook [(''x-String'', ''#App:1:x!String''), (''y-String'', ''#App:1:y!String'')] []
        [(''x-String'', ?rx), (''y-String'', ?ry)]"
  let ?P1 = "?P\<lparr>key_value_store := [(''#App:1:x!String'', PStr ''a''), (''#App:1:y!String'', PStr ''b'')]\<rparr>"
  let ?P2 = "?P\<lparr>key_value_store := [(''#App:1:x!String'', PStr ''a''), (''#App:1:y!String'', PStr ''b''),
                             (''#App:1:x!String'', PStr ''a''), (''#App:1:y!String'', PStr ''b'')]\<rparr>"
  have x: "\<And>pb. output_variables_by_type pb =
        [(''x-String'', ''#App:1:x!String''), (''y-String'', ''#App:1:y!String'')] \<Longrightarrow>
      create_output example_abc (Some ''x'') (PStr ''a'') (Some ''String'') pb =
        Inr (PStr ''OK'', pb\<lparr>key_value_store := key_value_store pb @ [(''#App:1:x!String'', PStr ''a'')]\<rparr>)"
    using create_output_example_typed [OF well_formed_x_String, where k = "''x''" and t = "''String''"]
    by (simp add: variable_string_def strip_letter_x snapshot_def)
  have y: "\<And>pb. output_variables_by_type pb =
        [(''x-String'', ''#App:1:x!String''), (''y-String'', ''#App:1:y!String'')] \<Longrightarrow>
      create_output example_abc (Some ''y'') (PStr ''b'') (Some ''String'') pb =
        Inr (PStr ''OK'', pb\<lparr>key_value_store := key_value_store pb @ [(''#App:1:y!String'', PStr ''b'')]\<rparr>)"
    using create_output_example_typed [OF well_formed_y_String, where k = "''y''" and t = "''String''"]
    by (simp add: variable_string_def strip_letter_y snapshot_def)
  have loop: "\<And>pb. output_variables_by_type pb =
        [(''x-String'', ''#App:1:x!String''), (''y-String'', ''#App:1:y!String'')] \<Longrightarrow>
      write_output_loop example_abc [?rx, ?ry] pb =
        Inr (pb\<lparr>key_value_store := key_value_store pb
               @ [(''#App:1:x!String'', PStr ''a''), (''#App:1:y!String'', PStr ''b'')]\<rparr>)"
    by (simp add: x y get_value_def)
  have first: "write_output example_abc ?P = Inr ?P1"
    using write_output_flush [where A = example_abc and pb = ?P, THEN conjunct1]
      loop [of ?P]
    by (simp add: example_playbook_def)
  have second: "write_output example_abc ?P1 = Inr ?P2"
    using write_output_flush [where A = example_abc and pb = ?P and pb' = ?P1,
        THEN conjunct2, THEN conjunct2, THEN conjunct2, THEN conjunct2, THEN conjunct1,
        THEN mp, OF first]
      loop [of ?P1]
    by (simp add: example_playbook_def)
  let ?B1 = "example_playbook [] [] [(''x-String'', ?rx)]"
  let ?B2 = "example_playbook [] [] [(''x-String'', ?rx), (''y-String'', ?ry)]"
  have added: "add_output ''y'' (PStr ''b'') ''String'' True ?B1 = Inr ?B2"
    by (simp add: add_output_overwrite String_not_array example_playbook_def
        dict_setdefault_def empty_record_def)
  have order: "map fst (output_data ?B2) = [''x-String'', ''y-String'']"
    using write_output_flush [where key = "''y''" and val = "PStr ''b''" and vtype = "''String''"
        and append_array = True and pb = ?B1 and pbr = ?B2] added
    by (simp add: example_playbook_def)
  show ?thesis using first second added order by simp
qed

section \<open>The entry that add_output leaves for a skipped value\<close>

lemma add_output_index_present:
  "key @ ''-'' @ vtype
     \<in> set (map fst (output_data (state_after (add_output key val vtype append_array pb))))"
  using add_output_keys_after [of key val vtype append_array pb] by (simp split: if_splits)

text \<open>
  C9 (amended). add_output enters the index \<^verbatim>\<open><key>-<type>\<close> in the buffer before it
  looks at the value: after every call, also one whose value is skipped and one that
  raises, the buffer has an entry under the index. After add_output(k, null, t) with a
  type that is not an array type, if no record was buffered under \<^verbatim>\<open>k-t\<close> before the
  call, the buffer has the empty record there, last, with no key, no type and no value
  (a record buffered there before stays as it is). A later write_output goes through the
  empty record too: the call it makes for it is create_output(null, null, null), which
  returns null with the Playbook unchanged.
\<close>

theorem add_output_empty_record:
  "key @ ''-'' @ vtype
     \<in> set (map fst (output_data (state_after (add_output key val vtype append_array pb))))
   \<and> (val = PNone \<and> vtype \<notin> set variable_array_types
       \<and> map_of (output_data pb) (key @ ''-'' @ vtype) = None \<longrightarrow>
      add_output key val vtype append_array pb =
        Inr (pb\<lparr>output_data := output_data pb @ [(key @ ''-'' @ vtype, empty_record)]\<rparr>))
   \<and> (val = PNone \<and> vtype \<notin> set variable_array_types
       \<and> map_of (output_data pb) (key @ ''-'' @ vtype) = Some r \<longrightarrow>
      add_output key val vtype append_array pb = Inr (pb\<lparr>output_data := output_data pb\<rparr>))
   \<and> rec_key empty_record = None \<and> rec_type empty_record = None
   \<and> rec_value empty_record = None
   \<and> write_output A (pb\<lparr>output_data := output_data pb @ [(key @ ''-'' @ vtype, empty_record)]\<rparr>) =
       (case write_output_loop A (map snd (output_data pb))
               (pb\<lparr>output_data := output_data pb @ [(key @ ''-'' @ vtype, empty_record)]\<rparr>) of
          Inl e \<Rightarrow> Inl e
        | Inr pb1 \<Rightarrow>
            (case create_output A (rec_key empty_record) (get_value empty_record)
                    (rec_type empty_record) pb1 of
               Inl e \<Rightarrow> Inl e
             | Inr (res, pb3) \<Rightarrow> Inr pb3))
   \<and> create_output A (rec_key empty_record) (get_value empty_record) (rec_type empty_record) q
       = create_output A None PNone None q
   \<and> create_output A None PNone None q = Inr (PNone, q)"
proof (intro conjI impI)
  show "key @ ''-'' @ vtype
     \<in> set (map fst (output_data (state_after (add_output key val vtype append_array pb))))"
    by (rule add_output_index_present)
next
  assume "val = PNone \<and> vtype \<notin> set variable_array_types
       \<and> map_of (output_data pb) (key @ ''-'' @ vtype) = None"
  then show "add_output key val vtype append_array pb =
        Inr (pb\<lparr>output_data := output_data pb @ [(key @ ''-'' @ vtype, empty_record)]\<rparr>)"
    by (simp add: add_output_skip dict_setdefault_absent)
next
  assume "val = PNone \<and> vtype \<notin> set variable_array_types
       \<and> map_of (output_data pb) (key @ ''-'' @ vtype) = Some r"
  then show "add_output key val vtype append_array pb = Inr (pb\<lparr>output_data := output_data pb\<rparr>)"
    by (simp add: add_output_skip dict_setdefault_present)
next
  show "rec_key empty_record = None" "rec_type empty_record = None"
    "rec_value empty_record = None"
    by (simp_all add: empty_record_def)
next
  show "write_output A (pb\<lparr>output_data := output_data pb @ [(key @ ''-'' @ vtype, empty_record)]\<rparr>) =
       (case write_output_loop A (map snd (output_data pb))
               (pb\<lparr>output_data := output_data pb @ [(key @ ''-'' @ vtype, empty_record)]\<rparr>) of
          Inl e \<Rightarrow> Inl e
        | Inr pb1 \<Rightarrow>
            (case create_output A (rec_key empty_record) (get_value empty_record)
                    (rec_type empty_record) pb1 of
               Inl e \<Rightarrow> Inl e
             | Inr (res, pb3) \<Rightarrow> Inr pb3))"
    by (simp add: write_output_def write_output_loop_append split: sum.splits prod.splits)
next
  show "create_output A (rec_key empty_record) (get_value empty_record) (rec_type empty_record) q
       = create_output A None PNone None q"
    by (simp add: empty_record_def get_value_def)
  show "create_output A None PNone None q = Inr (PNone, q)"
    by (simp add: create_output_def)
qed

theorem add_output_empty_record_witness:
  "add_output ''k'' PNone ''String'' True (example_playbook [(''k-String'', ''#App:1:k!String'')] [] [])
     = Inr (example_playbook [(''k-String'', ''#App:1:k!String'')] [] [(''k-String'', empty_record)])
   \<and> ''k-String'' \<in> set (map fst (output_data (state_after
        (add_output ''k'' PNone ''String'' True
           (example_playbook [(''k-String'', ''#App:1:k!String'')] [] [])))))
   \<and> ''x-StringArray'' \<in> set (map fst (output_data (state_after
        (add_output ''x'' (PStr ''b'') ''StringArray'' True
           (example_playbook [] []
              [(''x-StringArray'',
                \<lparr>rec_key = Some ''x'', rec_type = Some ''StringArray'',
                 rec_value = Some (PStr ''a'')\<rparr>)])))))
   \<and> add_output ''k'' PNone ''String'' True
       (example_playbook [] []
          [(''k-String'', \<lparr>rec_key = Some ''k'', rec_type = Some ''String'',
                           rec_value = Some (PStr ''v'')\<rparr>)])
     = Inr (example_playbook [] []
          [(''k-String'', \<lparr>rec_key = Some ''k'', rec_type = Some ''String'',
                           rec_value = Some (PStr ''v'')\<rparr>)])
   \<and> write_output example_abc
       (example_playbook [(''k-String'', ''#App:1:k!String'')] [] [(''k-String'', empty_record)])
     = Inr (example_playbook [(''k-String'', ''#App:1:k!String'')] [] [(''k-String'', empty_record)])"
proof -
  let ?P0 = "example_playbook [(''k-String'', ''#App:1:k!String'')] [] []"
  let ?P1 = "example_playbook [(''k-String'', ''#App:1:k!String'')] [] [(''k-String'', empty_record)]"
  let ?r = "\<lparr>rec_key = Some ''k'', rec_type = Some ''String'', rec_value = Some (PStr ''v'')\<rparr>"
  let ?Q = "example_playbook [] [] [(''k-String'', ?r)]"
  note t0 = add_output_empty_record [where key = "''k''" and val = PNone and vtype = "''String''"
      and append_array = True and pb = ?P0 and A = example_abc and q = ?P1]
  have a: "add_output ''k'' PNone ''String'' True ?P0 = Inr ?P1"
    using t0 String_not_array by (simp add: example_playbook_def)
  have b: "''k-String'' \<in> set (map fst (output_data (state_after
        (add_output ''k'' PNone ''String'' True ?P0))))"
    using t0 by simp
  have b2: "''x-StringArray'' \<in> set (map fst (output_data (state_after
        (add_output ''x'' (PStr ''b'') ''StringArray'' True
           (example_playbook [] []
              [(''x-StringArray'',
                \<lparr>rec_key = Some ''x'', rec_type = Some ''StringArray'',
                 rec_value = Some (PStr ''a'')\<rparr>)])))))"
    using add_output_empty_record [where key = "''x''" and val = "PStr ''b''"
        and vtype = "''StringArray''" and append_array = True
        and pb = "example_playbook [] []
              [(''x-StringArray'',
                \<lparr>rec_key = Some ''x'', rec_type = Some ''StringArray'',
                 rec_value = Some (PStr ''a'')\<rparr>)]"]
    by simp
  have c: "add_output ''k'' PNone ''String'' True ?Q = Inr ?Q"
    using add_output_empty_record [where key = "''k''" and val = PNone and vtype = "''String''"
      and append_array = True and pb = ?Q and r = ?r]
      String_not_array
    by (simp add: example_playbook_def)
  have d: "write_output example_abc ?P1 = Inr ?P1"
    using t0 by (simp add: example_playbook_def empty_record_def get_value_def)
  show ?thesis using a b b2 c d by simp
qed

text \<open>
  The claim as written fails when a record is already buffered under the index: the
  skipped call leaves that record, not an empty one.
\<close>

theorem add_output_empty_record_counterexample:
  "add_output ''k'' (PStr ''v'') ''String'' True (example_playbook [] [] []) =
     Inr (example_playbook [] []
            [(''k-String'', \<lparr>rec_key = Some ''k'', rec_type = Some ''String'',
                             rec_value = Some (PStr ''v'')\<rparr>)])
   \<and> add_output ''k'' PNone ''String'' True
       (example_playbook [] []
          [(''k-String'', \<lparr>rec_key = Some ''k'', rec_type = Some ''String'',
                           rec_value = Some (PStr ''v'')\<rparr>)]) =
     Inr (example_playbook [] []
            [(''k-String'', \<lparr>rec_key = Some ''k'', rec_type = Some ''String'',
                             rec_value = Some (PStr ''v'')\<rparr>)])
   \<and> map_of (output_data (example_playbook [] []
            [(''k-String'', \<lparr>rec_key = Some ''k'', rec_type = Some ''String'',
                             rec_value = Some (PStr ''v'')\<rparr>)])) ''k-String''
       \<noteq> Some empty_record"
  by (simp add: add_output_def Let_def dict_setdefault_def example_playbook_def
      String_not_array empty_record_def)

section \<open>read\<close>

lemma read_no_array: "read A key False embedded pb = read_value A key embedded pb"
  by (simp add: read_def split: sum.splits)

lemma read_array:
  "read A key True embedded pb =
     (case read A key False embedded pb of
        Inl e \<Rightarrow> Inl e
      | Inr v \<Rightarrow> Inr (if is_list v then v else if v = PNone then PList [] else PList [v]))"
  by (simp add: read_def split: sum.splits)

lemma read_value_not_string: "\<forall>k. key \<noteq> PStr k \<Longrightarrow> read_value A key embedded pb = Inr key"
  by (cases key) (simp_all add: read_value_def)

text \<open>
  C6 (amended). When the key is not a string, read with \<^verbatim>\<open>array\<close> false returns the key
  itself, and with \<^verbatim>\<open>array\<close> true it returns the key coerced as any other result is.
  For every key, read with \<^verbatim>\<open>array\<close> true returns what read with \<^verbatim>\<open>array\<close> false
  returns, coerced: a list as it is, null as the empty list, and any other value as the
  list of that one value.
\<close>

theorem read_array_coercion:
  "((\<forall>k. key \<noteq> PStr k) \<longrightarrow>
      read A key False embedded pb = Inr key
      \<and> read A key True embedded pb =
          Inr (if is_list key then key else if key = PNone then PList [] else PList [key]))
   \<and> (read A key False embedded pb = Inr v \<longrightarrow>
        (is_list v \<longrightarrow> read A key True embedded pb = Inr v)
        \<and> (v = PNone \<longrightarrow> read A key True embedded pb = Inr (PList []))
        \<and> (\<not> is_list v \<and> v \<noteq> PNone \<longrightarrow> read A key True embedded pb = Inr (PList [v])))
   \<and> (read A key False embedded pb = Inl e \<longrightarrow> read A key True embedded pb = Inl e)"
proof (intro conjI impI)
  assume ns: "\<forall>k. key \<noteq> PStr k"
  then show "read A key False embedded pb = Inr key"
    by (simp add: read_no_array read_value_not_string)
  from ns show "read A key True embedded pb =
          Inr (if is_list key then key else if key = PNone then PList [] else PList [key])"
    by (simp add: read_array read_no_array read_value_not_string)
next
  assume r: "read A key False embedded pb = Inr v"
  { assume "is_list v"
    then show "read A key True embedded pb = Inr v" using r by (simp add: read_array) }
  { assume "v = PNone"
    then show "read A key True embedded pb = Inr (PList [])"
      using r by (simp add: read_array is_list_def) }
  { assume "\<not> is_list v \<and> v \<noteq> PNone"
    then show "read A key True embedded pb = Inr (PList [v])"
      using r by (simp add: read_array) }
next
  assume "read A key False embedded pb = Inl e"
  then show "read A key True embedded pb = Inl e" by (simp add: read_array)
qed

lemma read_variable:
  assumes "well_formed ds nm ty" and "list_all py_isspace w" and "list_all py_isspace w'"
  shows "read A (PStr (w @ variable_string ds nm ty @ w')) False embedded pb =
     (if ty \<in> set variable_single_types
      then abc_read A (variable_string ds nm ty) embedded (key_value_store pb)
      else if ty \<in> set variable_array_types
      then abc_read_array A (variable_string ds nm ty) embedded (key_value_store pb)
      else abc_read_raw A (variable_string ds nm ty) (key_value_store pb))"
proof -
  have s: "strip (w @ variable_string ds nm ty @ w') = variable_string ds nm ty"
    using assms by (rule strip_variable_string)
  have t: "variable_type (PStr (variable_string ds nm ty)) = Inr ty"
    using variable_type_variable_string [OF assms(1), of "[]" "[]"] by simp
  show ?thesis
    by (simp add: read_no_array read_value_def s t variable_match_variable_string [OF assms(1)])
qed

lemma read_x_String:
  "read A (PStr ''#App:1:x!String'') False embedded pb =
     abc_read A ''#App:1:x!String'' embedded (key_value_store pb)"
  using read_variable [OF well_formed_x_String, of "[]" "[]" A embedded pb]
  by (simp add: variable_string_def variable_single_types_def)

lemma read_x_StringArray:
  "read A (PStr ''#App:1:x!StringArray'') False embedded pb =
     abc_read_array A ''#App:1:x!StringArray'' embedded (key_value_store pb)"
  using read_variable [OF well_formed_x_StringArray, of "[]" "[]" A embedded pb]
  by (simp add: variable_string_def variable_single_types_def variable_array_types_def)

theorem read_array_coercion_witness:
  "read example_abc (PInt 5) False True (example_playbook [] [] []) = Inr (PInt 5)
   \<and> read example_abc (PInt 5) True True (example_playbook [] [] []) = Inr (PList [PInt 5])
   \<and> read example_abc PNone True True (example_playbook [] [] []) = Inr (PList [])
   \<and> read example_abc (PList [PInt 1, PInt 2]) True True (example_playbook [] [] [])
       = Inr (PList [PInt 1, PInt 2])
   \<and> read example_abc (PStr ''plain'') True False (example_playbook [] [] [])
       = Inr (PList [PStr ''plain''])
   \<and> read example_abc (PStr ''#App:1:x!String'') True True (example_playbook [] [] [])
       = Inr (PList [])
   \<and> read example_abc (PStr ''#App:1:x!StringArray'') True True
         ((example_playbook [] [] [])
            \<lparr>key_value_store := [(''#App:1:x!StringArray'', PList [PStr ''a'', PStr ''b''])]\<rparr>)
       = Inr (PList [PStr ''a'', PStr ''b''])
   \<and> read offline_abc (PStr ''#App:1:x!String'') True True (example_playbook [] [] [])
       = Inl (StoreError ''offline'')"
proof -
  let ?P = "example_playbook [] [] []"
  have i: "\<forall>k. PInt 5 \<noteq> PStr k" and n: "\<forall>k. PNone \<noteq> PStr k"
    and l: "\<forall>k. PList [PInt 1, PInt 2] \<noteq> PStr k"
    by simp_all
  have a: "read example_abc (PInt 5) False True ?P = Inr (PInt 5)
      \<and> read example_abc (PInt 5) True True ?P = Inr (PList [PInt 5])"
    using read_array_coercion [where key = "PInt 5" and A = example_abc and embedded = True
        and pb = ?P, THEN conjunct1, THEN mp, OF i]
    by (simp add: is_list_def)
  have b: "read example_abc PNone True True ?P = Inr (PList [])"
    using read_array_coercion [where key = PNone and A = example_abc and embedded = True
        and pb = ?P, THEN conjunct1, THEN mp, OF n]
    by (simp add: is_list_def)
  have c: "read example_abc (PList [PInt 1, PInt 2]) True True ?P = Inr (PList [PInt 1, PInt 2])"
    using read_array_coercion [where key = "PList [PInt 1, PInt 2]" and A = example_abc
        and embedded = True and pb = ?P, THEN conjunct1, THEN mp, OF l]
    by (simp add: is_list_def)
  have p: "read example_abc (PStr ''plain'') False False ?P = Inr (PStr ''plain'')"
    by (simp add: read_def read_value_def variable_type_def strip_def py_isspace_def
        variable_match_def match_at_start_def backslash_def)
  have d: "read example_abc (PStr ''plain'') True False ?P = Inr (PList [PStr ''plain''])"
    using read_array_coercion [where key = "PStr ''plain''" and A = example_abc
        and embedded = False and pb = ?P and v = "PStr ''plain''"] p
    by (simp add: is_list_def)
  let ?Q = "(example_playbook [] [] [])
      \<lparr>key_value_store := [(''#App:1:x!StringArray'', PList [PStr ''a'', PStr ''b''])]\<rparr>"
  have m: "read example_abc (PStr ''#App:1:x!String'') False True ?P = Inr PNone"
    by (simp add: read_x_String example_abc_def store_get_def example_playbook_def)
  have f: "read example_abc (PStr ''#App:1:x!String'') True True ?P = Inr (PList [])"
    using read_array_coercion [where key = "PStr ''#App:1:x!String''" and A = example_abc
        and embedded = True and pb = ?P and v = PNone] m
    by simp
  have s: "read example_abc (PStr ''#App:1:x!StringArray'') False True ?Q
      = Inr (PList [PStr ''a'', PStr ''b''])"
    by (simp add: read_x_StringArray example_abc_def store_get_def example_playbook_def)
  have g: "read example_abc (PStr ''#App:1:x!StringArray'') True True ?Q
      = Inr (PList [PStr ''a'', PStr ''b''])"
    using read_array_coercion [where key = "PStr ''#App:1:x!StringArray''" and A = example_abc
        and embedded = True and pb = ?Q and v = "PList [PStr ''a'', PStr ''b'']"] s
    by (simp add: is_list_def)
  have o: "read offline_abc (PStr ''#App:1:x!String'') False True ?P = Inl (StoreError ''offline'')"
    by (simp add: read_x_String offline_abc_def)
  have h: "read offline_abc (PStr ''#App:1:x!String'') True True ?P = Inl (StoreError ''offline'')"
    using read_array_coercion [where key = "PStr ''#App:1:x!String''" and A = offline_abc
        and embedded = True and pb = ?P and e = "StoreError ''offline''"] o
    by simp
  show ?thesis using a b c d f g h by simp
qed

text \<open>
  The claim as written fails on a key that is not a string when \<^verbatim>\<open>array\<close> is true: the
  call does not return the key itself but the list that holds it.
\<close>

theorem read_array_coercion_counterexample:
  "read example_abc (PInt 5) True True (example_playbook [] [] []) = Inr (PList [PInt 5])
   \<and> read example_abc (PInt 5) True True (example_playbook [] [] []) \<noteq> Inr (PInt 5)"
  by (simp add: read_def read_value_def is_list_def)

section \<open>The substitutions of read on a literal string\<close>

lemma sub_space_append:
  "(xs \<noteq> [] \<longrightarrow> last xs \<noteq> backslash) \<Longrightarrow>
   sub_space p (xs @ zs) = sub_space p xs @ sub_space (if xs = [] then p else Some (last xs)) zs"
proof (induction p xs rule: sub_space.induct)
  fix prev :: "char option" and v :: char
  assume "[v] \<noteq> [] \<longrightarrow> last [v] \<noteq> backslash"
  then show "sub_space prev ([v] @ zs) =
      sub_space prev [v] @ sub_space (if [v] = [] then prev else Some (last [v])) zs"
    by (cases zs) auto
qed auto

lemma sub_space_occurrence:
  assumes "xs \<noteq> [] \<longrightarrow> last xs \<noteq> backslash"
  shows "sub_space None (xs @ backslash # CHR ''s'' # ys) =
     sub_space None xs @ CHR '' '' # sub_space (Some CHR ''s'') ys"
  using assms by (simp add: sub_space_append)

lemma sub_escaped_occurrence:
  "sub_escaped (xs @ backslash # backslash # CHR ''s'' # ys) =
     sub_escaped xs @ backslash # CHR ''s'' # sub_escaped ys"
  by (induction xs rule: sub_escaped.induct) (auto simp: backslash_def)

lemma sub_space_no_backslash: "backslash \<notin> set s \<Longrightarrow> sub_space p s = s"
  by (induction p s rule: sub_space.induct) auto

lemma sub_escaped_no_backslash: "backslash \<notin> set s \<Longrightarrow> sub_escaped s = s"
  by (induction s rule: sub_escaped.induct) auto

lemma read_literal:
  assumes "\<not> variable_match (strip s)"
  shows "read A (PStr s) False embedded pb =
     (if embedded
      then abc_read_embedded A (PStr (sub_escaped (sub_space None s))) (key_value_store pb)
      else Inr (PStr (sub_escaped (sub_space None s))))"
  using assms
  by (simp add: read_no_array read_value_def strip_idem variable_type_def)

text \<open>
  C8 (amended). Let the key be a string whose stripped form does not match the variable
  grammar; its type is then the default String. read makes exactly the two substitutions
  on the key as it was passed, the one for backslash-s first, and only then resolves
  embedded variables, when asked to. An occurrence of backslash-s that does not follow a
  backslash becomes a space; an occurrence of two backslashes and s becomes one backslash
  and s. So the literal a, backslash, backslash, s, b reads as a, backslash, s, b, and
  the literal a, backslash, s, b reads as a, space, b.
\<close>

theorem read_literal_escapes:
  "(\<not> variable_match (strip s) \<longrightarrow>
      variable_type (PStr s) = Inr ''String''
      \<and> read A (PStr s) False False pb = Inr (PStr (sub_escaped (sub_space None s)))
      \<and> read A (PStr s) False True pb =
          abc_read_embedded A (PStr (sub_escaped (sub_space None s))) (key_value_store pb))
   \<and> ((xs \<noteq> [] \<longrightarrow> last xs \<noteq> backslash) \<longrightarrow>
        sub_space None (xs @ backslash # CHR ''s'' # ys) =
          sub_space None xs @ CHR '' '' # sub_space (Some CHR ''s'') ys)
   \<and> sub_escaped (xs @ backslash # backslash # CHR ''s'' # ys) =
        sub_escaped xs @ backslash # CHR ''s'' # sub_escaped ys
   \<and> (backslash \<notin> set s \<longrightarrow> sub_escaped (sub_space None s) = s)
   \<and> read A (PStr (''a'' @ [backslash, backslash] @ ''sb'')) False False pb =
        Inr (PStr (''a'' @ [backslash] @ ''sb''))
   \<and> read A (PStr (''a'' @ [backslash] @ ''sb'')) False False pb = Inr (PStr ''a b'')"
proof (intro conjI impI)
  assume n: "\<not> variable_match (strip s)"
  then show "variable_type (PStr s) = Inr ''String''" by (rule variable_type_not_match)
  from n show "read A (PStr s) False False pb = Inr (PStr (sub_escaped (sub_space None s)))"
    by (simp add: read_literal)
  from n show "read A (PStr s) False True pb =
          abc_read_embedded A (PStr (sub_escaped (sub_space None s))) (key_value_store pb)"
    by (simp add: read_literal)
next
  assume "xs \<noteq> [] \<longrightarrow> last xs \<noteq> backslash"
  then show "sub_space None (xs @ backslash # CHR ''s'' # ys) =
          sub_space None xs @ CHR '' '' # sub_space (Some CHR ''s'') ys"
    by (rule sub_space_occurrence)
next
  show "sub_escaped (xs @ backslash # backslash # CHR ''s'' # ys) =
        sub_escaped xs @ backslash # CHR ''s'' # sub_escaped ys"
    by (rule sub_escaped_occurrence)
next
  assume "backslash \<notin> set s"
  then show "sub_escaped (sub_space None s) = s"
    by (simp add: sub_space_no_backslash sub_escaped_no_backslash)
next
  have m: "\<And>t. t \<noteq> [] \<Longrightarrow> hd t = CHR ''a'' \<Longrightarrow> \<not> variable_match t"
    by (auto simp: variable_match_def split: option.splits dest!: match_at_start_hash)
  have s1: "strip (''a'' @ [backslash, backslash] @ ''sb'') = ''a'' @ [backslash, backslash] @ ''sb''"
    by (simp add: strip_def py_isspace_def backslash_def)
  have s2: "strip (''a'' @ [backslash] @ ''sb'') = ''a'' @ [backslash] @ ''sb''"
    by (simp add: strip_def py_isspace_def backslash_def)
  have n1: "\<not> variable_match (strip (''a'' @ [backslash, backslash] @ ''sb''))"
    unfolding s1 by (rule m) simp_all
  have n2: "\<not> variable_match (strip (''a'' @ [backslash] @ ''sb''))"
    unfolding s2 by (rule m) simp_all
  show "read A (PStr (''a'' @ [backslash, backslash] @ ''sb'')) False False pb =
        Inr (PStr (''a'' @ [backslash] @ ''sb''))"
    unfolding read_literal [OF n1] by (simp add: backslash_def)
  show "read A (PStr (''a'' @ [backslash] @ ''sb'')) False False pb = Inr (PStr ''a b'')"
    unfolding read_literal [OF n2] by (simp add: backslash_def)
qed

lemma strip_hello_world:
  "strip (''hello'' @ [backslash] @ ''sworld'') = ''hello'' @ [backslash] @ ''sworld''"
  by (simp add: strip_def py_isspace_def backslash_def)

theorem read_literal_escapes_witness:
  "variable_type (PStr (''hello'' @ [backslash] @ ''sworld'')) = Inr ''String''
   \<and> read example_abc (PStr (''hello'' @ [backslash] @ ''sworld'')) False False
       (example_playbook [] [] []) = Inr (PStr ''hello world'')
   \<and> read example_abc (PStr (''hello'' @ [backslash] @ ''sworld'')) False True
       (example_playbook [] [] []) = Inr (PStr ''hello world'')
   \<and> sub_space None (''hello'' @ backslash # CHR ''s'' # ''world'') = ''hello world''
   \<and> sub_escaped (sub_space None ''plain'') = ''plain''"
proof -
  let ?s = "''hello'' @ [backslash] @ ''sworld''"
  have n: "\<not> variable_match (strip ?s)"
    unfolding strip_hello_world
    by (auto simp: variable_match_def split: option.splits dest!: match_at_start_hash)
  have l: "''hello'' \<noteq> [] \<longrightarrow> last ''hello'' \<noteq> backslash"
    by (simp add: backslash_def)
  have b: "backslash \<notin> set ''plain''" by (simp add: backslash_def)
  note t = read_literal_escapes [where s = ?s and A = example_abc
      and pb = "example_playbook [] [] []" and xs = "''hello''" and ys = "''world''"]
  have e: "sub_space None (''hello'' @ backslash # CHR ''s'' # ''world'') = ''hello world''"
    using t l by (simp add: backslash_def)
  have r: "variable_type (PStr ?s) = Inr ''String''
     \<and> read example_abc (PStr ?s) False False (example_playbook [] [] [])
         = Inr (PStr (sub_escaped (sub_space None ?s)))
     \<and> read example_abc (PStr ?s) False True (example_playbook [] [] [])
         = abc_read_embedded example_abc (PStr (sub_escaped (sub_space None ?s)))
             (key_value_store (example_playbook [] [] []))"
    using t [THEN conjunct1, THEN mp, OF n] .
  have v: "sub_escaped (sub_space None ?s) = ''hello world''"
    by (simp add: backslash_def)
  have p: "sub_escaped (sub_space None ''plain'') = ''plain''"
    using read_literal_escapes [where s = "''plain''", THEN conjunct2, THEN conjunct2,
        THEN conjunct2, THEN conjunct1, THEN mp, OF b] .
  show ?thesis using r e p by (simp add: v example_abc_def)
qed

text \<open>
  The claim as written fails on a variable with a blank before it: the key does not match
  the grammar and its type is String, yet read strips it, finds a variable and reads the
  store, and no substitution is made.
\<close>

theorem read_literal_escapes_counterexample:
  "is_variable (PStr '' #App:1:x!String'') = False
   \<and> variable_type (PStr '' #App:1:x!String'') = Inr ''String''
   \<and> read example_abc (PStr '' #App:1:x!String'') False False
         ((example_playbook [] [] [])
            \<lparr>key_value_store := [(''#App:1:x!String'', PStr ''stored'')]\<rparr>)
       = Inr (PStr ''stored'')
   \<and> sub_escaped (sub_space None '' #App:1:x!String'') = '' #App:1:x!String''
   \<and> read example_abc (PStr '' #App:1:x!String'') False False
         ((example_playbook [] [] [])
            \<lparr>key_value_store := [(''#App:1:x!String'', PStr ''stored'')]\<rparr>)
       \<noteq> Inr (PStr (sub_escaped (sub_space None '' #App:1:x!String'')))"
proof -
  let ?Q = "(example_playbook [] [] [])
      \<lparr>key_value_store := [(''#App:1:x!String'', PStr ''stored'')]\<rparr>"
  have sp: "list_all py_isspace '' ''" by (simp add: py_isspace_def)
  have nv: "is_variable (PStr ('' '' @ variable_string ''1'' ''x'' ''String'')) = False"
    using padded_not_match [of "'' ''" "variable_string ''1'' ''x'' ''String''"] sp
    by (simp add: is_variable_def)
  have ty: "variable_type (PStr ('' '' @ variable_string ''1'' ''x'' ''String'' @ [])) = Inr ''String''"
    using well_formed_x_String sp by (intro variable_type_variable_string) simp_all
  have rd: "read example_abc (PStr ('' '' @ variable_string ''1'' ''x'' ''String'' @ [])) False False ?Q
      = Inr (PStr ''stored'')"
    using read_variable [OF well_formed_x_String sp, of "[]" example_abc False ?Q]
    by (simp add: variable_single_types_def example_abc_def store_get_def example_playbook_def
        variable_string_def)
  have su: "sub_escaped (sub_space None '' #App:1:x!String'') = '' #App:1:x!String''"
    by (simp add: backslash_def)
  show ?thesis using nv ty rd su by (simp add: variable_string_def)
qed

end
